theory Spec2Isabelle
  imports Complex_Main "HOL-Library.AList"
begin

section \<open>Data model of \<open>base_agent.py\<close>\<close>

text \<open>
  The two enumerations of the module, with the string each member carries
  (\<open>AgentStatus.value\<close>, \<open>MessageType.value\<close>).
\<close>

datatype AgentStatus = IDLE | WORKING | WAITING | ERROR | COMPLETED

fun status_value :: "AgentStatus \<Rightarrow> string" where
  "status_value IDLE = ''idle''"
| "status_value WORKING = ''working''"
| "status_value WAITING = ''waiting''"
| "status_value ERROR = ''error''"
| "status_value COMPLETED = ''completed''"

datatype MessageType = REQUEST | RESPONSE | EVENT | COMMAND

fun type_value :: "MessageType \<Rightarrow> string" where
  "type_value REQUEST = ''request''"
| "type_value RESPONSE = ''response''"
| "type_value EVENT = ''event''"
| "type_value COMMAND = ''command''"

text \<open>
  Payloads and blackboard entries are typed \<open>Any\<close> in the source. The values that the
  modelled code builds or inspects are \<open>None\<close>, strings, integers, floats, lists and
  dictionaries with string keys. A float is represented by the rational it denotes; a
  dictionary is an association list in insertion order, read with \<open>map_of\<close> and written
  with \<open>AList.update\<close> (an existing key keeps its position, a new key goes last, as
  in Python).
\<close>

datatype pyval =
    PNone
  | PStr string
  | PInt int
  | PFloat rat
  | PList "pyval list"
  | PDict "(string \<times> pyval) list"

type_synonym pydict = "(string \<times> pyval) list"

text \<open>
  A \<open>datetime\<close> is only ever observed through \<open>isoformat()\<close>, so it is represented
  by that text.
\<close>

datatype datetime = Datetime string

fun isoformat :: "datetime \<Rightarrow> string" where
  "isoformat (Datetime s) = s"

text \<open>
  \<open>AgentMessage\<close>. The field \<open>id\<close> is called \<open>msg_id\<close> and the field \<open>type\<close> is
  called \<open>msg_type\<close>. \<open>correlation_id\<close> is whatever value the sender passes
  (\<open>PNone\<close> for the default \<open>None\<close>).
\<close>

record AgentMessage =
  msg_id :: string
  from_agent :: string
  to_agent :: string
  msg_type :: MessageType
  payload :: pydict
  timestamp :: datetime
  correlation_id :: pyval

definition to_dict :: "AgentMessage \<Rightarrow> pydict" where
  "to_dict m =
     [(''id'', PStr (msg_id m)),
      (''from'', PStr (from_agent m)),
      (''to'', PStr (to_agent m)),
      (''type'', PStr (type_value (msg_type m))),
      (''payload'', PDict (payload m)),
      (''timestamp'', PStr (isoformat (timestamp m))),
      (''correlation_id'', correlation_id m)]"

text \<open>\<open>AgentContext\<close> and its three methods.\<close>

record AgentContext =
  session_id :: string
  goal :: string
  data :: pydict

definition AgentContext_get :: "AgentContext \<Rightarrow> string \<Rightarrow> pyval \<Rightarrow> pyval" where
  "AgentContext_get c key dflt = (case map_of (data c) key of None \<Rightarrow> dflt | Some v \<Rightarrow> v)"

definition AgentContext_set :: "string \<Rightarrow> pyval \<Rightarrow> AgentContext \<Rightarrow> AgentContext" where
  "AgentContext_set key v c = c\<lparr>data := AList.update key v (data c)\<rparr>"

definition AgentContext_update :: "pydict \<Rightarrow> AgentContext \<Rightarrow> AgentContext" where
  "AgentContext_update updates c =
     c\<lparr>data := fold (\<lambda>(k, v). AList.update k v) updates (data c)\<rparr>"

text \<open>
  \<open>BaseAgent\<close>. The inbox \<open>asyncio.Queue\<close> is unbounded, so it is a list: \<open>put\<close>
  appends, \<open>get\<close> takes the head. \<open>context\<close> is a reference to an \<open>AgentContext\<close>
  object shared with the orchestrator and with the other agents; it is an address into
  the store of context objects below (the field is called \<open>context_ref\<close>). There is
  one bus, so \<open>message_bus\<close> records whether \<open>set_message_bus\<close> has bound it.
\<close>

record BaseAgent =
  agent_id :: string
  capabilities :: "string list"
  status :: AgentStatus
  message_queue :: "AgentMessage list"
  context_ref :: "nat option"
  message_bus :: bool
  tasks_completed :: int
  tasks_failed :: int
  total_time :: rat

definition BaseAgent_init :: "string \<Rightarrow> string list \<Rightarrow> BaseAgent" where
  "BaseAgent_init aid caps =
     \<lparr>agent_id = aid, capabilities = caps, status = IDLE, message_queue = [],
      context_ref = None, message_bus = False,
      tasks_completed = 0, tasks_failed = 0, total_time = 0\<rparr>"

definition set_context :: "nat \<Rightarrow> BaseAgent \<Rightarrow> BaseAgent" where
  "set_context r a = a\<lparr>context_ref := Some r\<rparr>"

definition set_message_bus :: "BaseAgent \<Rightarrow> BaseAgent" where
  "set_message_bus a = a\<lparr>message_bus := True\<rparr>"

definition receive_message :: "AgentMessage \<Rightarrow> BaseAgent \<Rightarrow> BaseAgent" where
  "receive_message m a = a\<lparr>message_queue := message_queue a @ [m]\<rparr>"

text \<open>
  \<open>get_stats\<close>. Both quotients are Python's true division \<open>/\<close>, whose result is a
  float.
\<close>

definition get_stats :: "BaseAgent \<Rightarrow> pydict" where
  "get_stats a =
     [(''agent_id'', PStr (agent_id a)),
      (''status'', PStr (status_value (status a))),
      (''capabilities'', PList (map PStr (capabilities a))),
      (''tasks_completed'', PInt (tasks_completed a)),
      (''tasks_failed'', PInt (tasks_failed a)),
      (''avg_time_per_task'',
         PFloat (total_time a / of_int (max (tasks_completed a) 1))),
      (''success_rate'',
         PFloat (of_int (tasks_completed a)
                 / of_int (max (tasks_completed a + tasks_failed a) 1)))]"

text \<open>
  Exceptions. A call either returns a value or raises; what it did to the state before
  raising stays done, so every procedure returns the state next to its result.
\<close>

datatype exn =
    RuntimeError string
  | ValueError string
  | KeyError string
  | TypeError string
  | AttributeError string

datatype 'a result = Return 'a | Raise exn

text \<open>
  \<open>print\<close> writes a line to standard output. A line is kept as the pieces of its
  f-string, before they are rendered.
\<close>

datatype fragment = Text string | Value pyval | Error exn

text \<open>
  The state of the process: the bus (\<open>agents\<close>, a dictionary in registration order,
  and \<open>message_log\<close>), the orchestrator's \<open>active_goals\<close> (session id to context
  object), the context objects by address, and what has been printed.
\<close>

record System =
  agents :: "(string \<times> BaseAgent) list"
  message_log :: "AgentMessage list"
  active_goals :: "(string \<times> nat) list"
  contexts :: "nat \<Rightarrow> AgentContext"
  stdout :: "fragment list list"

definition print :: "fragment list \<Rightarrow> System \<Rightarrow> System" where
  "print line sys = sys\<lparr>stdout := stdout sys @ [line]\<rparr>"

section \<open>The message bus\<close>

definition register_agent :: "BaseAgent \<Rightarrow> System \<Rightarrow> System" where
  "register_agent a sys =
     sys\<lparr>agents := AList.update (agent_id a) (set_message_bus a) (agents sys)\<rparr>"

text \<open>
  \<open>MessageBus.send\<close>: log first, then deliver. The broadcast loop visits every entry
  of the dictionary and skips the one whose key is the sender.
\<close>

definition MessageBus_send :: "AgentMessage \<Rightarrow> System \<Rightarrow> unit result \<times> System" where
  "MessageBus_send message sys =
     (let sys1 = sys\<lparr>message_log := message_log sys @ [message]\<rparr> in
      if to_agent message = ''broadcast'' then
        (Return (),
         sys1\<lparr>agents :=
           map (\<lambda>(aid, agent).
                  if aid \<noteq> from_agent message then (aid, receive_message message agent)
                  else (aid, agent))
               (agents sys1)\<rparr>)
      else
        (case map_of (agents sys1) (to_agent message) of
           Some agent \<Rightarrow>
             (Return (),
              sys1\<lparr>agents :=
                AList.update (to_agent message) (receive_message message agent) (agents sys1)\<rparr>)
         | None \<Rightarrow>
             (Return (),
              print [Text ''Warning: Agent '', Text (to_agent message), Text '' not found''] sys1)))"

text \<open>
  Python's slice \<open>xs[i:]\<close>: a negative start counts from the end and is clipped at the
  front, a start beyond the end is clipped at the end.
\<close>

definition slice_from :: "int \<Rightarrow> 'a list \<Rightarrow> 'a list" where
  "slice_from i xs =
     (let n = int (length xs);
          start = (if i < 0 then max (i + n) 0 else min i n)
      in drop (nat start) xs)"

definition get_message_history :: "int \<Rightarrow> System \<Rightarrow> pydict list \<times> System" where
  "get_message_history limit sys = (map to_dict (slice_from (- limit) (message_log sys)), sys)"

definition get_system_stats :: "System \<Rightarrow> pydict" where
  "get_system_stats sys =
     [(''total_agents'', PInt (int (length (agents sys)))),
      (''agents'', PList (map (\<lambda>(aid, agent). PDict (get_stats agent)) (agents sys))),
      (''total_messages'', PInt (int (length (message_log sys))))]"

section \<open>The agent runtime\<close>

text \<open>
  Every \<open>AgentMessage\<close> constructed without an explicit \<open>id\<close> and \<open>timestamp\<close> draws
  them from \<open>uuid4()\<close> and \<open>datetime.now()\<close>. A procedure that constructs a message
  takes the pair drawn for it as an argument.
\<close>

type_synonym stamp = "string \<times> datetime"

text \<open>
  A method reads \<open>self.agent_id\<close>, \<open>self.context\<close> and \<open>self.message_bus\<close> from the
  agent record \<open>self\<close> it is given.
\<close>

definition send_message ::
  "stamp \<Rightarrow> BaseAgent \<Rightarrow> string \<Rightarrow> MessageType \<Rightarrow> pydict \<Rightarrow> pyval \<Rightarrow> System
     \<Rightarrow> unit result \<times> System" where
  "send_message st self to message_type pl corr sys =
     (if \<not> message_bus self then (Raise (RuntimeError ''Message bus not configured''), sys)
      else
        MessageBus_send
          \<lparr>msg_id = fst st, from_agent = agent_id self, to_agent = to,
           msg_type = message_type, payload = pl, timestamp = snd st,
           correlation_id = corr\<rparr> sys)"

definition broadcast_event ::
  "stamp \<Rightarrow> BaseAgent \<Rightarrow> string \<Rightarrow> pydict \<Rightarrow> System \<Rightarrow> unit result \<times> System" where
  "broadcast_event st self event_type d sys =
     send_message st self ''broadcast'' EVENT
       [(''event'', PStr event_type), (''data'', PDict d)] PNone sys"

text \<open>
  The four handler slots of an agent class. \<open>handle_request\<close> is abstract in
  \<open>BaseAgent\<close>; the other three default to \<open>pass\<close>. \<open>handle_error\<close> is overridden
  by no class of the repository, so it is the base method.
\<close>

type_synonym handler = "BaseAgent \<Rightarrow> AgentMessage \<Rightarrow> System \<Rightarrow> unit result \<times> System"

record handlers =
  handle_request :: handler
  handle_response :: handler
  handle_event :: handler
  handle_command :: handler

definition BaseAgent_handle_request :: handler where
  "BaseAgent_handle_request self message sys = (Return (), sys)"

definition BaseAgent_handle_response :: handler where
  "BaseAgent_handle_response self message sys = (Return (), sys)"

definition BaseAgent_handle_event :: handler where
  "BaseAgent_handle_event self message sys = (Return (), sys)"

definition BaseAgent_handle_command :: handler where
  "BaseAgent_handle_command self message sys = (Return (), sys)"

definition handle_error :: "BaseAgent \<Rightarrow> exn \<Rightarrow> System \<Rightarrow> unit result \<times> System" where
  "handle_error self error sys =
     (Return (), print [Text ''['', Text (agent_id self), Text ''] ERROR: '', Error error] sys)"

definition dispatch :: "handlers \<Rightarrow> handler" where
  "dispatch hs self message sys =
     (case msg_type message of
        REQUEST \<Rightarrow> handle_request hs self message sys
      | RESPONSE \<Rightarrow> handle_response hs self message sys
      | EVENT \<Rightarrow> handle_event hs self message sys
      | COMMAND \<Rightarrow> handle_command hs self message sys)"

text \<open>
  One iteration of the \<open>while True\<close> loop of \<open>process_messages\<close>, for the agent
  registered as \<open>self_id\<close>. \<open>elapsed\<close> is the number of seconds the iteration measures
  between its two readings of the clock. With an empty inbox \<open>queue.get()\<close> suspends
  the loop: the iteration does nothing. The result \<open>Raise e\<close> means that \<open>e\<close> left
  the \<open>try\<close> statement, which ends the loop. The agent object is the entry of the
  bus stored under \<open>self_id\<close>; \<open>modify_agent\<close> writes to it and leaves a state in
  which no such entry exists as it is.
\<close>

definition modify_agent :: "string \<Rightarrow> (BaseAgent \<Rightarrow> BaseAgent) \<Rightarrow> System \<Rightarrow> System" where
  "modify_agent aid f sys =
     (case map_of (agents sys) aid of
        None \<Rightarrow> sys
      | Some a \<Rightarrow> sys\<lparr>agents := AList.update aid (f a) (agents sys)\<rparr>)"

definition process_step :: "handlers \<Rightarrow> rat \<Rightarrow> string \<Rightarrow> System \<Rightarrow> unit result \<times> System" where
  "process_step hs elapsed self_id sys =
     (case map_of (agents sys) self_id of
        None \<Rightarrow> (Return (), sys)
      | Some a \<Rightarrow>
          (case message_queue a of
             [] \<Rightarrow> (Return (), sys)
           | message # rest \<Rightarrow>
               (let self = a\<lparr>message_queue := rest, status := WORKING\<rparr>;
                    sys1 = modify_agent self_id (\<lambda>_. self) sys
                in case dispatch hs self message sys1 of
                     (Return _, sys2) \<Rightarrow>
                       (Return (),
                        modify_agent self_id
                          (\<lambda>b. b\<lparr>total_time := total_time b + elapsed,
                                  tasks_completed := tasks_completed b + 1,
                                  status := IDLE\<rparr>) sys2)
                   | (Raise e, sys2) \<Rightarrow>
                       (let sys3 = modify_agent self_id
                                     (\<lambda>b. b\<lparr>status := ERROR,
                                             tasks_failed := tasks_failed b + 1\<rparr>) sys2
                        in handle_error self e sys3))))"

text \<open>
  The loop itself, for as many iterations as there are clock readings in \<open>elapsed\<close>.
  It stops early only when an exception leaves an iteration.
\<close>

fun process_messages ::
  "handlers \<Rightarrow> rat list \<Rightarrow> string \<Rightarrow> System \<Rightarrow> unit result \<times> System" where
  "process_messages hs [] self_id sys = (Return (), sys)"
| "process_messages hs (el # els) self_id sys =
     (case process_step hs el self_id sys of
        (Return _, sys') \<Rightarrow> process_messages hs els self_id sys'
      | (Raise e, sys') \<Rightarrow> (Raise e, sys'))"

section \<open>The orchestrator\<close>

text \<open>
  \<open>set_goal\<close> draws the session id from \<open>uuid4()\<close> and allocates the context at an
  address \<open>r\<close>; every registered agent is bound to the new context.
\<close>

definition set_goal :: "string \<Rightarrow> nat \<Rightarrow> string \<Rightarrow> pydict \<Rightarrow> System \<Rightarrow> string \<times> System" where
  "set_goal sid r g initial_data sys =
     (sid,
      print [Text ''[Orchestrator] New goal set: '', Text g, Text '' (session: '', Text sid,
             Text '')'']
        (sys\<lparr>contexts := (contexts sys)(r := \<lparr>session_id = sid, goal = g, data = initial_data\<rparr>),
             active_goals := AList.update sid r (active_goals sys),
             agents := map (\<lambda>(aid, agent). (aid, set_context r agent)) (agents sys)\<rparr>))"

definition start_optimization :: "stamp \<Rightarrow> string \<Rightarrow> System \<Rightarrow> unit result \<times> System" where
  "start_optimization st sid sys =
     (case map_of (active_goals sys) sid of
        None \<Rightarrow> (Raise (ValueError (''Unknown session: '' @ sid)), sys)
      | Some r \<Rightarrow>
          MessageBus_send
            \<lparr>msg_id = fst st, from_agent = ''orchestrator'', to_agent = ''planner'',
             msg_type = COMMAND,
             payload = [(''action'', PStr ''start_optimization''),
                        (''session_id'', PStr sid),
                        (''goal'', PStr (goal (contexts sys r)))],
             timestamp = snd st, correlation_id = PNone\<rparr> sys)"

definition get_progress :: "string \<Rightarrow> System \<Rightarrow> pyval result \<times> System" where
  "get_progress sid sys =
     (case map_of (active_goals sys) sid of
        None \<Rightarrow> (Return (PDict [(''error'', PStr ''Unknown session'')]), sys)
      | Some r \<Rightarrow>
          (Return (PDict [(''session_id'', PStr sid),
                          (''goal'', PStr (goal (contexts sys r))),
                          (''data'', PDict (data (contexts sys r))),
                          (''system_stats'', PDict (get_system_stats sys))]),
           sys))"

section \<open>The planner of \<open>route_agents.py\<close>\<close>

text \<open>
  Operations on the context object an agent is bound to.
\<close>

definition context_set :: "nat \<Rightarrow> string \<Rightarrow> pyval \<Rightarrow> System \<Rightarrow> System" where
  "context_set r key v sys =
     sys\<lparr>contexts := (contexts sys)(r := AgentContext_set key v (contexts sys r))\<rparr>"

definition context_get :: "nat \<Rightarrow> string \<Rightarrow> pyval \<Rightarrow> System \<Rightarrow> pyval" where
  "context_get r key dflt sys = AgentContext_get (contexts sys r) key dflt"

text \<open>Python's \<open>x in s\<close> for two strings: \<open>x\<close> occurs in \<open>s\<close> as a substring.\<close>

fun contains_str :: "string \<Rightarrow> string \<Rightarrow> bool" where
  "contains_str x [] = (x = [])"
| "contains_str x (c # s) = (take (length x) (c # s) = x \<or> contains_str x s)"

definition PlannerAgent_init :: BaseAgent where
  "PlannerAgent_init =
     BaseAgent_init ''planner'' [''goal_decomposition'', ''task_assignment'', ''workflow_management'']"

text \<open>
  \<open>trigger_optimization\<close>. The arguments of \<open>send_message\<close> are evaluated first, and
  they read \<open>self.context\<close>; on an agent without a context that read raises.
\<close>

definition trigger_optimization :: "stamp \<Rightarrow> BaseAgent \<Rightarrow> System \<Rightarrow> unit result \<times> System" where
  "trigger_optimization st self sys =
     (let sys0 = print [Text [CHR 0x0A], Text ''[Planner] All data collected. Triggering optimization...''] sys
      in case context_ref self of
           None \<Rightarrow> (Raise (AttributeError ''get''), sys0)
         | Some r \<Rightarrow>
             (case send_message st self ''optimizer'' REQUEST
                     [(''action'', PStr ''optimize_route''),
                      (''weather_data'', context_get r ''weather_data'' PNone sys0),
                      (''fuel_data'', context_get r ''fuel_data'' PNone sys0),
                      (''network_data'', context_get r ''network_data'' PNone sys0)]
                     (PStr (session_id (contexts sys0 r))) sys0 of
                (Raise e, sys1) \<Rightarrow> (Raise e, sys1)
              | (Return _, sys1) \<Rightarrow>
                  (Return (), context_set r ''planning_status'' (PStr ''optimizing'') sys1)))"

text \<open>
  \<open>PlannerAgent.handle_response\<close>. \<open>pending\<close> is whatever the blackboard holds under
  \<open>pending_responses\<close>. For a list, \<open>in\<close> compares the sender with the elements,
  \<open>remove\<close> deletes the first equal element, and the list written back is the one that
  was read, one element shorter. For a string or a dictionary \<open>in\<close> is a substring or
  key test and \<open>remove\<close> does not exist; on the other values \<open>in\<close> itself raises.
\<close>

definition advance_if_complete ::
  "stamp \<Rightarrow> BaseAgent \<Rightarrow> nat \<Rightarrow> nat \<Rightarrow> System \<Rightarrow> unit result \<times> System" where
  "advance_if_complete st self r len sys =
     (if len = 0 \<and> context_get r ''planning_status'' PNone sys = PStr ''waiting_for_data''
      then trigger_optimization st self sys
      else (Return (), sys))"

definition PlannerAgent_handle_response ::
  "stamp \<Rightarrow> BaseAgent \<Rightarrow> AgentMessage \<Rightarrow> System \<Rightarrow> unit result \<times> System" where
  "PlannerAgent_handle_response st self message sys =
     (case context_ref self of
        None \<Rightarrow> (Return (), sys)
      | Some r \<Rightarrow>
          (case context_get r ''pending_responses'' (PList []) sys of
             PList pending \<Rightarrow>
               (if PStr (from_agent message) \<in> set pending then
                  (let pending' = remove1 (PStr (from_agent message)) pending;
                       sys1 = context_set r ''pending_responses'' (PList pending') sys;
                       sys2 = context_set r (from_agent message @ ''_data'')
                                (PDict (payload message)) sys1;
                       sys3 = print [Text ''[Planner] Received data from '',
                                     Text (from_agent message)] sys2
                   in advance_if_complete st self r (length pending') sys3)
                else advance_if_complete st self r (length pending) sys)
           | PStr s \<Rightarrow>
               (if contains_str (from_agent message) s
                then (Raise (AttributeError ''remove''), sys)
                else advance_if_complete st self r (length s) sys)
           | PDict d \<Rightarrow>
               (if from_agent message \<in> set (map fst d)
                then (Raise (AttributeError ''remove''), sys)
                else advance_if_complete st self r (length d) sys)
           | _ \<Rightarrow> (Raise (TypeError ''argument is not iterable''), sys)))"

text \<open>
  \<open>decompose_and_delegate\<close> sends three requests, one draw of \<open>uuid4()\<close> and of the
  clock for each, and then records what it waits for.
\<close>

definition decompose_and_delegate ::
  "stamp \<times> stamp \<times> stamp \<Rightarrow> BaseAgent \<Rightarrow> pydict \<Rightarrow> System \<Rightarrow> unit result \<times> System" where
  "decompose_and_delegate sts self pl sys =
     (case map_of pl ''goal'' of
        None \<Rightarrow> (Raise (KeyError ''goal''), sys)
      | Some g \<Rightarrow>
     (case map_of pl ''session_id'' of
        None \<Rightarrow> (Raise (KeyError ''session_id''), sys)
      | Some sid \<Rightarrow>
     (let sys0 = print [Text ''[Planner] Session: '', Value sid]
                   (print [Text [CHR 0x0A], Text ''[Planner] Decomposing goal: '', Value g] sys)
      in
      case send_message (fst sts) self ''weather'' REQUEST
             [(''action'', PStr ''get_forecast''), (''origin'', PStr ''PTY''),
              (''destination'', PStr ''BOG''), (''time_range'', PStr ''next_24_hours'')]
             sid sys0 of
        (Raise e, sys1) \<Rightarrow> (Raise e, sys1)
      | (Return _, sys1) \<Rightarrow>
     (case send_message (fst (snd sts)) self ''fuel'' REQUEST
             [(''action'', PStr ''get_fuel_analysis''), (''origin'', PStr ''PTY''),
              (''destination'', PStr ''BOG'')]
             sid sys1 of
        (Raise e, sys2) \<Rightarrow> (Raise e, sys2)
      | (Return _, sys2) \<Rightarrow>
     (case send_message (snd (snd sts)) self ''network'' REQUEST
             [(''action'', PStr ''check_constraints''), (''route'', PStr ''PTY-BOG'')]
             sid sys2 of
        (Raise e, sys3) \<Rightarrow> (Raise e, sys3)
      | (Return _, sys3) \<Rightarrow>
     (case context_ref self of
        None \<Rightarrow> (Return (), sys3)
      | Some r \<Rightarrow>
          (Return (),
           context_set r ''pending_responses''
             (PList [PStr ''weather'', PStr ''fuel'', PStr ''network''])
             (context_set r ''planning_status'' (PStr ''waiting_for_data'') sys3))))))))"

definition PlannerAgent_handle_command ::
  "stamp \<times> stamp \<times> stamp \<Rightarrow> BaseAgent \<Rightarrow> AgentMessage \<Rightarrow> System \<Rightarrow> unit result \<times> System" where
  "PlannerAgent_handle_command sts self message sys =
     (if map_of (payload message) ''action'' = Some (PStr ''start_optimization'')
      then decompose_and_delegate sts self (payload message) sys
      else (Return (), sys))"

text \<open>
  The handler slots of \<open>PlannerAgent\<close>: it overrides \<open>handle_response\<close> and
  \<open>handle_command\<close> and inherits the rest. The draws are those of one iteration of the
  loop.
\<close>

definition PlannerAgent_handlers :: "stamp \<times> stamp \<times> stamp \<Rightarrow> stamp \<Rightarrow> handlers" where
  "PlannerAgent_handlers sts st =
     \<lparr>handle_request = BaseAgent_handle_request,
      handle_response = PlannerAgent_handle_response st,
      handle_event = BaseAgent_handle_event,
      handle_command = PlannerAgent_handle_command sts\<rparr>"

text \<open>
  A sequence of responses handled one after the other, as the planner's loop hands them
  to \<open>handle_response\<close>; each comes with the draw for the message its handling may
  construct.
\<close>

fun handle_responses ::
  "BaseAgent \<Rightarrow> (stamp \<times> AgentMessage) list \<Rightarrow> System \<Rightarrow> unit result \<times> System" where
  "handle_responses self [] sys = (Return (), sys)"
| "handle_responses self ((st, message) # rest) sys =
     (case PlannerAgent_handle_response st self message sys of
        (Return _, sys') \<Rightarrow> handle_responses self rest sys'
      | (Raise e, sys') \<Rightarrow> (Raise e, sys'))"

section \<open>What a handler leaves alone\<close>

text \<open>
  \<open>tasks_completed\<close>, \<open>tasks_failed\<close> and \<open>total_time\<close> are written by
  \<open>process_messages\<close> only. \<open>same_bookkeeping aid sys sys'\<close> says that an agent
  registered under \<open>aid\<close> in \<open>sys\<close> is registered in \<open>sys'\<close> with these three
  fields unchanged.
\<close>

definition same_bookkeeping :: "string \<Rightarrow> System \<Rightarrow> System \<Rightarrow> bool" where
  "same_bookkeeping aid sys sys' =
     (case map_of (agents sys) aid of
        None \<Rightarrow> True
      | Some a \<Rightarrow>
          (case map_of (agents sys') aid of
             None \<Rightarrow> False
           | Some b \<Rightarrow> tasks_completed b = tasks_completed a
                       \<and> tasks_failed b = tasks_failed a
                       \<and> total_time b = total_time a))"

section \<open>A small system to evaluate on\<close>

text \<open>
  The planner and the weather agent registered on an empty bus, and one goal set: the
  state in which the demo of \<open>route_agents.py\<close> starts, with two of its agents.
\<close>

definition WeatherAgent_init :: BaseAgent where
  "WeatherAgent_init =
     BaseAgent_init ''weather'' [''weather_monitoring'', ''forecasting'', ''turbulence_detection'']"

definition empty_system :: System where
  "empty_system =
     \<lparr>agents = [], message_log = [], active_goals = [],
      contexts = (\<lambda>_. \<lparr>session_id = [], goal = [], data = []\<rparr>), stdout = []\<rparr>"

definition demo_system :: System where
  "demo_system =
     snd (set_goal ''s1'' 0 ''test goal'' []
       (register_agent WeatherAgent_init (register_agent PlannerAgent_init empty_system)))"

definition demo_message :: "string \<Rightarrow> string \<Rightarrow> MessageType \<Rightarrow> AgentMessage" where
  "demo_message src dst ty =
     \<lparr>msg_id = ''m'', from_agent = src, to_agent = dst, msg_type = ty,
      payload = [], timestamp = Datetime ''2025-01-01T00:00:00'', correlation_id = PNone\<rparr>"

text \<open>
  The planner as it is registered in that system, and the system after the planner has
  fanned out the goal of session \<open>s1\<close>; then five responses, two of them duplicates.
\<close>

definition planner_self :: BaseAgent where
  "planner_self = PlannerAgent_init\<lparr>message_bus := True, context_ref := Some 0\<rparr>"

definition demo_stamps :: "stamp \<times> stamp \<times> stamp" where
  "demo_stamps = ((''u1'', Datetime ''t1''), (''u2'', Datetime ''t2''), (''u3'', Datetime ''t3''))"

definition waiting_system :: System where
  "waiting_system =
     snd (decompose_and_delegate demo_stamps planner_self
            [(''action'', PStr ''start_optimization''), (''session_id'', PStr ''s1''),
             (''goal'', PStr ''test goal'')] demo_system)"

definition demo_responses :: "(stamp \<times> AgentMessage) list" where
  "demo_responses =
     map (\<lambda>src. ((''u4'', Datetime ''t4''), demo_message src ''planner'' RESPONSE))
       [''weather'', ''weather'', ''fuel'', ''network'', ''fuel'']"

text \<open>
  A command that lacks the \<open>goal\<close> key, on which \<open>decompose_and_delegate\<close> raises
  \<open>KeyError\<close>; the system with that command and a response queued for the planner; and
  the planner and the system as they are while the command is being handled.
\<close>

definition failing_command :: AgentMessage where
  "failing_command =
     (demo_message ''orchestrator'' ''planner'' COMMAND)
       \<lparr>payload := [(''action'', PStr ''start_optimization'')]\<rparr>"

definition queued_system :: System where
  "queued_system =
     snd (MessageBus_send (demo_message ''weather'' ''planner'' RESPONSE)
       (snd (MessageBus_send failing_command demo_system)))"

definition demo_handlers :: handlers where
  "demo_handlers = PlannerAgent_handlers demo_stamps (''u4'', Datetime ''t4'')"

definition working_planner :: BaseAgent where
  "working_planner =
     planner_self\<lparr>message_queue := [demo_message ''weather'' ''planner'' RESPONSE],
                   status := WORKING\<rparr>"

definition working_system :: System where
  "working_system = modify_agent ''planner'' (\<lambda>_. working_planner) queued_system"

section \<open>Properties\<close>

text \<open>
  C10. \<open>AgentContext.set\<close> and \<open>AgentContext.update\<close> write only the \<open>data\<close>
  mapping: the session identifier and the goal text of the context are the same before
  and after, for every key, value and dictionary of updates.
\<close>

theorem AgentContext_set_update_frame:
  "session_id (AgentContext_set key v c) = session_id c
   \<and> goal (AgentContext_set key v c) = goal c
   \<and> session_id (AgentContext_update updates c) = session_id c
   \<and> goal (AgentContext_update updates c) = goal c"
  by (simp add: AgentContext_set_def AgentContext_update_def)

subsection \<open>The evaluation system, unfolded\<close>

lemma demo_system_eq:
  "demo_system =
     \<lparr>agents = [(''planner'', PlannerAgent_init\<lparr>message_bus := True, context_ref := Some 0\<rparr>),
                (''weather'', WeatherAgent_init\<lparr>message_bus := True, context_ref := Some 0\<rparr>)],
      message_log = [],
      active_goals = [(''s1'', 0)],
      contexts = (\<lambda>_. \<lparr>session_id = [], goal = [], data = []\<rparr>)
                   (0 := \<lparr>session_id = ''s1'', goal = ''test goal'', data = []\<rparr>),
      stdout = [[Text ''[Orchestrator] New goal set: '', Text ''test goal'', Text '' (session: '',
                 Text ''s1'', Text '')'']]\<rparr>"
  by (simp add: demo_system_def set_goal_def register_agent_def empty_system_def print_def
      PlannerAgent_init_def WeatherAgent_init_def BaseAgent_init_def set_message_bus_def
      set_context_def)

subsection \<open>Statistics of an agent that has done nothing\<close>

text \<open>
  C3, as the code has it. For an agent with \<open>tasks_completed = 0\<close>,
  \<open>tasks_failed = 0\<close> and \<open>total_time = 0\<close>, \<open>get_stats\<close> reports
  \<open>avg_time_per_task = 0\<close> and \<open>success_rate = 0\<close>: the floor \<open>max(..., 1)\<close> is on
  the denominator only, so the rate is \<open>0 / 1\<close>.
\<close>

theorem get_stats_zero:
  "tasks_completed a = 0 \<Longrightarrow> tasks_failed a = 0 \<Longrightarrow> total_time a = 0 \<Longrightarrow>
   map_of (get_stats a) ''avg_time_per_task'' = Some (PFloat 0)
   \<and> map_of (get_stats a) ''success_rate'' = Some (PFloat 0)"
  by (simp add: get_stats_def)

theorem get_stats_zero_witness:
  "tasks_completed WeatherAgent_init = 0 \<and> tasks_failed WeatherAgent_init = 0
   \<and> total_time WeatherAgent_init = 0
   \<and> map_of (get_stats WeatherAgent_init) ''avg_time_per_task'' = Some (PFloat 0)
   \<and> map_of (get_stats WeatherAgent_init) ''success_rate'' = Some (PFloat 0)"
  using get_stats_zero [of WeatherAgent_init]
  by (simp add: WeatherAgent_init_def BaseAgent_init_def)

text \<open>
  C3 as stated asks for \<open>success_rate = 1.0\<close>. The freshly constructed weather agent
  has all three counters at zero and its reported rate is not \<open>1\<close>.
\<close>

theorem get_stats_zero_counterexample:
  "tasks_completed WeatherAgent_init = 0 \<and> tasks_failed WeatherAgent_init = 0
   \<and> total_time WeatherAgent_init = 0
   \<and> map_of (get_stats WeatherAgent_init) ''success_rate'' \<noteq> Some (PFloat 1)"
  by (simp add: WeatherAgent_init_def BaseAgent_init_def get_stats_def)

subsection \<open>The message history\<close>

lemma slice_from_neg:
  "0 < k \<Longrightarrow> slice_from (- k) xs = drop (length xs - nat k) xs"
  by (auto simp add: slice_from_def Let_def max_def nat_diff_distrib'
      intro: arg_cong [where f = "\<lambda>n. drop n xs"])

text \<open>
  For a positive limit the history is the last \<open>min limit (length log)\<close> entries of the
  log, oldest first.
\<close>

lemma get_message_history_positive:
  "0 < limit \<Longrightarrow>
   get_message_history limit sys
     = (map to_dict (drop (length (message_log sys) - nat limit) (message_log sys)), sys)"
  by (simp add: get_message_history_def slice_from_neg)

lemma get_message_history_positive_length:
  "0 < limit \<Longrightarrow>
   length (fst (get_message_history limit sys)) = min (nat limit) (length (message_log sys))"
  by (simp add: get_message_history_positive)

lemma get_message_history_zero:
  "get_message_history 0 sys = (map to_dict (message_log sys), sys)"
  by (simp add: get_message_history_def slice_from_def)

text \<open>
  C7 at the limit \<open>0\<close>. The claim asks for the \<open>min(0, length)\<close> = 0 most recent
  entries. The slice \<open>message_log[-0:]\<close> is \<open>message_log[0:]\<close>: on a log of one message
  the history with limit \<open>0\<close> is that one message, not the empty list.
\<close>

theorem get_message_history_zero_returns_log:
  "get_message_history 0 (empty_system\<lparr>message_log := [demo_message ''planner'' ''weather'' REQUEST]\<rparr>)
     = ([to_dict (demo_message ''planner'' ''weather'' REQUEST)],
        empty_system\<lparr>message_log := [demo_message ''planner'' ''weather'' REQUEST]\<rparr>)"
  by (simp add: get_message_history_def slice_from_def)

subsection \<open>Unknown sessions\<close>

text \<open>
  C4, as the code has it. For a session identifier that is not a key of
  \<open>active_goals\<close>, \<open>get_progress\<close> returns the dictionary
  \<open>{"error": "Unknown session"}\<close> and leaves the state as it was, and
  \<open>start_optimization\<close> raises \<open>ValueError("Unknown session: <id>")\<close>, having sent
  nothing and changed nothing.
\<close>

theorem unknown_session:
  "map_of (active_goals sys) sid = None \<Longrightarrow>
   get_progress sid sys = (Return (PDict [(''error'', PStr ''Unknown session'')]), sys)
   \<and> start_optimization st sid sys = (Raise (ValueError (''Unknown session: '' @ sid)), sys)"
  by (simp add: get_progress_def start_optimization_def)

theorem unknown_session_witness:
  "map_of (active_goals demo_system) ''nonexistent-id'' = None
   \<and> get_progress ''nonexistent-id'' demo_system
       = (Return (PDict [(''error'', PStr ''Unknown session'')]), demo_system)
   \<and> start_optimization (''u'', Datetime ''t'') ''nonexistent-id'' demo_system
       = (Raise (ValueError ''Unknown session: nonexistent-id''), demo_system)"
  using unknown_session [of demo_system "''nonexistent-id''" "(''u'', Datetime ''t'')"]
  by (simp add: demo_system_eq)

text \<open>
  C4 as stated has \<open>start_optimization\<close> return an error value. On the evaluation
  system, whose only session is \<open>s1\<close>, the call for \<open>nonexistent-id\<close> returns no value
  at all: it raises.
\<close>

theorem start_optimization_unknown_counterexample:
  "map_of (active_goals demo_system) ''nonexistent-id'' = None
   \<and> (\<nexists>v. fst (start_optimization (''u'', Datetime ''t'') ''nonexistent-id'' demo_system)
             = Return v)"
  by (simp add: demo_system_eq start_optimization_def)

subsection \<open>Routing\<close>

lemma map_of_deliver:
  "map_of (map (\<lambda>(aid, agent). if aid \<noteq> src then (aid, f agent) else (aid, agent)) xs) k
     = map_option (\<lambda>a. if k \<noteq> src then f a else a) (map_of xs k)"
  by (induction xs) auto

text \<open>
  C5. A message addressed to \<open>broadcast\<close> is routed without an exception, the set of
  registered agents stays the same, and every registered agent other than the sender has
  the message appended to its inbox once, while the agent registered under the sender's
  id keeps its inbox as it was.
\<close>

theorem broadcast_delivery:
  assumes "to_agent message = ''broadcast''"
  shows "fst (MessageBus_send message sys) = Return ()
     \<and> map fst (agents (snd (MessageBus_send message sys))) = map fst (agents sys)
     \<and> (\<forall>aid agent. map_of (agents sys) aid = Some agent \<longrightarrow>
          map_of (agents (snd (MessageBus_send message sys))) aid
            = Some (if aid = from_agent message then agent
                    else agent\<lparr>message_queue := message_queue agent @ [message]\<rparr>))"
  using assms
  by (auto simp add: MessageBus_send_def Let_def map_of_deliver receive_message_def
        split: prod.splits)

theorem broadcast_delivery_witness:
  "to_agent (demo_message ''planner'' ''broadcast'' EVENT) = ''broadcast''
   \<and> fst (MessageBus_send (demo_message ''planner'' ''broadcast'' EVENT) demo_system) = Return ()
   \<and> map_of (agents (snd (MessageBus_send (demo_message ''planner'' ''broadcast'' EVENT) demo_system)))
         ''planner''
       = Some (PlannerAgent_init\<lparr>message_bus := True, context_ref := Some 0\<rparr>)
   \<and> map_of (agents (snd (MessageBus_send (demo_message ''planner'' ''broadcast'' EVENT) demo_system)))
         ''weather''
       = Some (WeatherAgent_init\<lparr>message_bus := True, context_ref := Some 0,
                 message_queue := [demo_message ''planner'' ''broadcast'' EVENT]\<rparr>)"
  using broadcast_delivery [of "demo_message ''planner'' ''broadcast'' EVENT" demo_system]
  by (simp add: demo_system_eq demo_message_def PlannerAgent_init_def WeatherAgent_init_def
      BaseAgent_init_def)

text \<open>
  C6. A message whose recipient is neither \<open>broadcast\<close> nor a registered id is routed
  without an exception: the message is appended to the log, a warning is printed, and
  nothing else changes, so no inbox receives it.
\<close>

theorem unknown_recipient:
  assumes "to_agent message \<noteq> ''broadcast''" and "map_of (agents sys) (to_agent message) = None"
  shows "MessageBus_send message sys
     = (Return (),
        sys\<lparr>message_log := message_log sys @ [message],
            stdout := stdout sys @ [[Text ''Warning: Agent '', Text (to_agent message),
                                     Text '' not found'']]\<rparr>)"
  using assms by (simp add: MessageBus_send_def print_def)

theorem unknown_recipient_witness:
  "to_agent (demo_message ''planner'' ''nobody'' REQUEST) \<noteq> ''broadcast''
   \<and> map_of (agents demo_system) (to_agent (demo_message ''planner'' ''nobody'' REQUEST)) = None
   \<and> MessageBus_send (demo_message ''planner'' ''nobody'' REQUEST) demo_system
       = (Return (),
          demo_system\<lparr>message_log := [demo_message ''planner'' ''nobody'' REQUEST],
            stdout := stdout demo_system
                        @ [[Text ''Warning: Agent '', Text ''nobody'', Text '' not found'']]\<rparr>)"
  using unknown_recipient [of "demo_message ''planner'' ''nobody'' REQUEST" demo_system]
  by (simp add: demo_system_eq demo_message_def)

subsection \<open>Scatter and gather in the planner\<close>

lemma data_key_neq:
  "x @ ''_data'' \<noteq> ''pending_responses''" "x @ ''_data'' \<noteq> ''planning_status''"
proof -
  have a: "last (x @ ''_data'') = CHR ''a''" by simp
  show "x @ ''_data'' \<noteq> ''pending_responses''"
  proof
    assume "x @ ''_data'' = ''pending_responses''"
    then have "last (x @ ''_data'') = last ''pending_responses''" by (rule arg_cong)
    with a show False by simp
  qed
  show "x @ ''_data'' \<noteq> ''planning_status''"
  proof
    assume "x @ ''_data'' = ''planning_status''"
    then have "last (x @ ''_data'') = last ''planning_status''" by (rule arg_cong)
    with a show False by simp
  qed
qed

lemma context_get_set:
  "context_get r k d (context_set r k' v sys) = (if k = k' then v else context_get r k d sys)"
  by (simp add: context_get_def context_set_def AgentContext_get_def AgentContext_set_def
      update_conv')

lemma context_get_print [simp]: "context_get r k d (print line sys) = context_get r k d sys"
  by (simp add: context_get_def print_def)

lemma message_log_context_set [simp]: "message_log (context_set r k v sys) = message_log sys"
  by (simp add: context_set_def)

lemma message_log_print [simp]: "message_log (print line sys) = message_log sys"
  by (simp add: print_def)

lemma session_id_context_set [simp]:
  "session_id (contexts (context_set r k v sys) r') = session_id (contexts sys r')"
  by (simp add: context_set_def AgentContext_set_def)

lemma contexts_print [simp]: "contexts (print line sys) = contexts sys"
  by (simp add: print_def)

lemma MessageBus_send_returns: "fst (MessageBus_send m sys) = Return ()"
  by (simp add: MessageBus_send_def Let_def split: option.splits)

lemma MessageBus_send_log: "message_log (snd (MessageBus_send m sys)) = message_log sys @ [m]"
  by (simp add: MessageBus_send_def Let_def print_def split: option.splits)

lemma MessageBus_send_contexts: "contexts (snd (MessageBus_send m sys)) = contexts sys"
  by (simp add: MessageBus_send_def Let_def print_def split: option.splits)

lemma context_get_send [simp]:
  "context_get r k d (snd (MessageBus_send m sys)) = context_get r k d sys"
  by (simp add: context_get_def MessageBus_send_contexts)


lemma trigger_optimization_sends:
  assumes "context_ref self = Some r" and "message_bus self"
  shows "\<exists>sys' req. trigger_optimization st self sys = (Return (), sys')
           \<and> message_log sys' = message_log sys @ [req]
           \<and> (to_agent req = ''optimizer'' \<and> msg_type req = REQUEST \<and> from_agent req = agent_id self
               \<and> map_of (payload req) ''action'' = Some (PStr ''optimize_route'')
               \<and> correlation_id req = PStr (session_id (contexts sys r)))
           \<and> context_get r ''pending_responses'' (PList []) sys'
               = context_get r ''pending_responses'' (PList []) sys
           \<and> context_get r ''planning_status'' PNone sys' = PStr ''optimizing''
           \<and> session_id (contexts sys' r) = session_id (contexts sys r)"
proof -
  let ?sys0 = "print [Text [CHR 0x0A], Text ''[Planner] All data collected. Triggering optimization...''] sys"
  let ?req = "\<lparr>msg_id = fst st, from_agent = agent_id self, to_agent = ''optimizer'',
               msg_type = REQUEST,
               payload = [(''action'', PStr ''optimize_route''),
                      (''weather_data'', context_get r ''weather_data'' PNone ?sys0),
                      (''fuel_data'', context_get r ''fuel_data'' PNone ?sys0),
                      (''network_data'', context_get r ''network_data'' PNone ?sys0)],
               timestamp = snd st,
               correlation_id = PStr (session_id (contexts ?sys0 r))\<rparr>"
  obtain sys1 where s1: "MessageBus_send ?req ?sys0 = (Return (), sys1)"
    using MessageBus_send_returns [of ?req ?sys0] by (cases "MessageBus_send ?req ?sys0") auto
  have log1: "message_log sys1 = message_log sys @ [?req]"
    using MessageBus_send_log [of ?req ?sys0] s1 by simp
  have ctx1: "contexts sys1 = contexts sys"
    using MessageBus_send_contexts [of ?req ?sys0] s1 by simp
  have t: "trigger_optimization st self sys
             = (Return (), context_set r ''planning_status'' (PStr ''optimizing'') sys1)"
    using assms s1 by (simp add: trigger_optimization_def send_message_def Let_def)
  have g: "context_get r k d sys1 = context_get r k d sys" for k d
    by (simp add: context_get_def ctx1)
  show ?thesis
    unfolding t
    by (intro exI [of _ "context_set r ''planning_status'' (PStr ''optimizing'') sys1"]
          exI [of _ ?req])
       (simp add: log1 context_get_set g ctx1)
qed

lemma handle_response_ignored:
  assumes "context_ref self = Some r"
    and "context_get r ''pending_responses'' (PList []) sys = PList pending"
    and "PStr (from_agent message) \<notin> set pending"
    and "pending \<noteq> [] \<or> context_get r ''planning_status'' PNone sys \<noteq> PStr ''waiting_for_data''"
  shows "PlannerAgent_handle_response st self message sys = (Return (), sys)"
  using assms by (auto simp add: PlannerAgent_handle_response_def advance_if_complete_def)

lemma handle_response_removes:
  assumes "context_ref self = Some r"
    and "context_get r ''pending_responses'' (PList []) sys = PList pending"
    and "PStr (from_agent message) \<in> set pending"
    and "remove1 (PStr (from_agent message)) pending \<noteq> []"
  shows "\<exists>sys'. PlannerAgent_handle_response st self message sys = (Return (), sys')
           \<and> message_log sys' = message_log sys
           \<and> context_get r ''pending_responses'' (PList []) sys'
               = PList (remove1 (PStr (from_agent message)) pending)
           \<and> context_get r ''planning_status'' PNone sys'
               = context_get r ''planning_status'' PNone sys
           \<and> session_id (contexts sys' r) = session_id (contexts sys r)"
  using assms
  by (simp add: PlannerAgent_handle_response_def advance_if_complete_def Let_def
      context_get_set data_key_neq)

lemma handle_response_completes:
  assumes "context_ref self = Some r" and "message_bus self"
    and "context_get r ''pending_responses'' (PList []) sys = PList pending"
    and "PStr (from_agent message) \<in> set pending"
    and "remove1 (PStr (from_agent message)) pending = []"
    and "context_get r ''planning_status'' PNone sys = PStr ''waiting_for_data''"
  shows "\<exists>sys' req. PlannerAgent_handle_response st self message sys = (Return (), sys')
           \<and> message_log sys' = message_log sys @ [req]
           \<and> (to_agent req = ''optimizer'' \<and> msg_type req = REQUEST \<and> from_agent req = agent_id self
               \<and> map_of (payload req) ''action'' = Some (PStr ''optimize_route'')
               \<and> correlation_id req = PStr (session_id (contexts sys r)))
           \<and> context_get r ''pending_responses'' (PList []) sys' = PList []
           \<and> context_get r ''planning_status'' PNone sys' = PStr ''optimizing''"
proof -
  let ?sys3 = "print [Text ''[Planner] Received data from '', Text (from_agent message)]
                 (context_set r (from_agent message @ ''_data'') (PDict (payload message))
                   (context_set r ''pending_responses'' (PList []) sys))"
  have h: "PlannerAgent_handle_response st self message sys = trigger_optimization st self ?sys3"
    using assms
    by (simp add: PlannerAgent_handle_response_def advance_if_complete_def Let_def
        context_get_set data_key_neq)
  from trigger_optimization_sends [OF assms(1,2), of st ?sys3]
  obtain sys' req where t: "trigger_optimization st self ?sys3 = (Return (), sys')"
      "message_log sys' = message_log ?sys3 @ [req]"
      "(to_agent req = ''optimizer'' \<and> msg_type req = REQUEST \<and> from_agent req = agent_id self
               \<and> map_of (payload req) ''action'' = Some (PStr ''optimize_route'')
               \<and> correlation_id req = PStr (session_id (contexts ?sys3 r)))"
      "context_get r ''pending_responses'' (PList []) sys'
         = context_get r ''pending_responses'' (PList []) ?sys3"
      "context_get r ''planning_status'' PNone sys' = PStr ''optimizing''"
    by blast
  show ?thesis
    unfolding h
    using t
    by (intro exI [of _ sys'] exI [of _ req])
       (simp add: context_get_set data_key_neq)
qed


lemma handle_responses_done:
  assumes "context_ref self = Some r"
    and "context_get r ''pending_responses'' (PList []) sys = PList []"
    and "context_get r ''planning_status'' PNone sys \<noteq> PStr ''waiting_for_data''"
  shows "handle_responses self msgs sys = (Return (), sys)"
proof (induction msgs)
  case Nil
  show ?case by simp
next
  case (Cons sm msgs)
  obtain st m where sm: "sm = (st, m)" by (cases sm)
  have "PlannerAgent_handle_response st self m sys = (Return (), sys)"
    using assms by (intro handle_response_ignored [where pending = "[]"]) auto
  with Cons sm show ?case by simp
qed

lemma remove1_PStr: "remove1 (PStr x) (map PStr ps) = map PStr (remove1 x ps)"
  by (induction ps) auto

lemma handle_responses_gather:
  assumes ctx: "context_ref self = Some r" and bus: "message_bus self"
  shows "context_get r ''pending_responses'' (PList []) sys = PList (map PStr ps) \<Longrightarrow>
         distinct ps \<Longrightarrow> ps \<noteq> [] \<Longrightarrow>
         context_get r ''planning_status'' PNone sys = PStr ''waiting_for_data'' \<Longrightarrow>
         \<exists>sys'. handle_responses self msgs sys = (Return (), sys')
           \<and> (if set ps \<subseteq> from_agent ` snd ` set msgs
               then (\<exists>req. message_log sys' = message_log sys @ [req]
                       \<and> (to_agent req = ''optimizer'' \<and> msg_type req = REQUEST \<and> from_agent req = agent_id self
               \<and> map_of (payload req) ''action'' = Some (PStr ''optimize_route'')
               \<and> correlation_id req = PStr (session_id (contexts sys r))))
                    \<and> context_get r ''pending_responses'' (PList []) sys' = PList []
                    \<and> context_get r ''planning_status'' PNone sys' = PStr ''optimizing''
               else message_log sys' = message_log sys
                    \<and> context_get r ''pending_responses'' (PList []) sys'
                        = PList (map PStr (filter (\<lambda>p. p \<notin> from_agent ` snd ` set msgs) ps))
                    \<and> context_get r ''planning_status'' PNone sys' = PStr ''waiting_for_data'')"
proof (induction msgs arbitrary: sys ps)
  case Nil
  then show ?case by auto
next
  case (Cons sm msgs)
  obtain st m where sm: "sm = (st, m)" by (cases sm)
  let ?x = "from_agent m"
  let ?S = "from_agent ` snd ` set msgs"
  have senders: "from_agent ` snd ` set (sm # msgs) = insert ?x ?S"
    by (simp add: sm)
  show ?case
  proof (cases "?x \<in> set ps")
    case False
    then have "PStr ?x \<notin> set (map PStr ps)" by auto
    then have step: "PlannerAgent_handle_response st self m sys = (Return (), sys)"
      using Cons.prems ctx by (intro handle_response_ignored [where pending = "map PStr ps"]) auto
    have cov: "set ps \<subseteq> insert ?x ?S \<longleftrightarrow> set ps \<subseteq> ?S"
      using False by auto
    have fil: "filter (\<lambda>p. p \<notin> insert ?x ?S) ps = filter (\<lambda>p. p \<notin> ?S) ps"
      using False by (intro filter_cong) auto
    from Cons.IH [OF Cons.prems] show ?thesis
      unfolding senders cov fil by (simp add: sm step)
  next
    case True
    then have mem: "PStr ?x \<in> set (map PStr ps)" by simp
    have rem: "remove1 ?x ps = filter (\<lambda>p. p \<noteq> ?x) ps"
      using Cons.prems(2) by (simp add: distinct_remove1_removeAll removeAll_filter_not_eq)
         (metis (mono_tags, lifting) filter_cong)
    show ?thesis
    proof (cases "remove1 ?x ps = []")
      case False
      then have ne: "remove1 (PStr ?x) (map PStr ps) \<noteq> []" by (simp add: remove1_PStr)
      from handle_response_removes [OF ctx Cons.prems(1) mem ne, of st]
      obtain sys1 where s1: "PlannerAgent_handle_response st self m sys = (Return (), sys1)"
        and log1: "message_log sys1 = message_log sys"
        and pend1: "context_get r ''pending_responses'' (PList []) sys1
                      = PList (map PStr (remove1 ?x ps))"
        and stat1: "context_get r ''planning_status'' PNone sys1 = PStr ''waiting_for_data''"
        and sid1: "session_id (contexts sys1 r) = session_id (contexts sys r)"
        using Cons.prems(4) by (auto simp add: remove1_PStr)
      have d1: "distinct (remove1 ?x ps)" using Cons.prems(2) by simp
      have cov: "set ps \<subseteq> insert ?x ?S \<longleftrightarrow> set (remove1 ?x ps) \<subseteq> ?S"
        using Cons.prems(2) by auto
      have fil: "filter (\<lambda>p. p \<notin> insert ?x ?S) ps = filter (\<lambda>p. p \<notin> ?S) (remove1 ?x ps)"
        unfolding rem by (simp add: conj_commute)
      from Cons.IH [OF pend1 d1 False stat1]
      obtain sys' where run: "handle_responses self msgs sys1 = (Return (), sys')"
        and c: "if set (remove1 ?x ps) \<subseteq> ?S
                then (\<exists>req. message_log sys' = message_log sys1 @ [req]
                        \<and> (to_agent req = ''optimizer'' \<and> msg_type req = REQUEST \<and> from_agent req = agent_id self
               \<and> map_of (payload req) ''action'' = Some (PStr ''optimize_route'')
               \<and> correlation_id req = PStr (session_id (contexts sys1 r))))
                     \<and> context_get r ''pending_responses'' (PList []) sys' = PList []
                     \<and> context_get r ''planning_status'' PNone sys' = PStr ''optimizing''
                else message_log sys' = message_log sys1
                     \<and> context_get r ''pending_responses'' (PList []) sys'
                         = PList (map PStr (filter (\<lambda>p. p \<notin> ?S) (remove1 ?x ps)))
                     \<and> context_get r ''planning_status'' PNone sys' = PStr ''waiting_for_data''"
        by blast
      have hr: "handle_responses self (sm # msgs) sys = (Return (), sys')"
        by (simp add: sm s1 run)
      show ?thesis
        unfolding senders cov fil hr using c [unfolded log1 sid1]
        by (intro exI [of _ sys']) simp
    next
      case empty: True
      then have e: "remove1 (PStr ?x) (map PStr ps) = []" by (simp add: remove1_PStr)
      from handle_response_completes [OF ctx bus Cons.prems(1) mem e Cons.prems(4), of st]
      obtain sys1 req where s1: "PlannerAgent_handle_response st self m sys = (Return (), sys1)"
        and log1: "message_log sys1 = message_log sys @ [req]"
        and req: "(to_agent req = ''optimizer'' \<and> msg_type req = REQUEST \<and> from_agent req = agent_id self
               \<and> map_of (payload req) ''action'' = Some (PStr ''optimize_route'')
               \<and> correlation_id req = PStr (session_id (contexts sys r)))"
        and pend1: "context_get r ''pending_responses'' (PList []) sys1 = PList []"
        and stat1: "context_get r ''planning_status'' PNone sys1 = PStr ''optimizing''"
        by blast
      have rest: "handle_responses self msgs sys1 = (Return (), sys1)"
        using pend1 stat1 by (intro handle_responses_done [OF ctx]) auto
      have "set ps \<subseteq> {?x}"
        using empty rem by (auto simp add: filter_empty_conv)
      then have cov: "set ps \<subseteq> insert ?x ?S" by auto
      show ?thesis
        unfolding senders using cov req by (auto simp add: sm s1 rest log1 pend1 stat1)
    qed
  qed
qed


text \<open>
  C1. Take a planner that is bound to the bus and to a context whose
  \<open>pending_responses\<close> is a list of the three ids \<open>weather\<close>, \<open>fuel\<close> and
  \<open>network\<close>, each once and in any order, and whose \<open>planning_status\<close> is
  \<open>waiting_for_data\<close>, and let it handle any finite sequence of
  messages with \<open>handle_response\<close>. No call raises. If the senders of the sequence do
  not cover the three ids, nothing has been sent: the message log is what it was. If they
  do, the log has grown by exactly one message, a \<open>REQUEST\<close> from the planner to
  \<open>optimizer\<close> with action \<open>optimize_route\<close> and the session id as correlation id.
  As this holds for every sequence, hence for every prefix of one, the request is sent at
  the step that removes the last of the three senders and never again. In the state
  reached, a further response from a sender that has already answered, or from a sender
  that was never pending, returns the state as it is: nothing is changed and nothing is
  sent.
\<close>

theorem scatter_gather:
  assumes ctx: "context_ref self = Some r" and bus: "message_bus self"
    and pend: "context_get r ''pending_responses'' (PList []) sys = PList (map PStr ps)"
    and d: "distinct ps"
    and set_ps: "set ps = {''weather'', ''fuel'', ''network''}"
    and stat: "context_get r ''planning_status'' PNone sys = PStr ''waiting_for_data''"
  shows "\<exists>sys'. handle_responses self msgs sys = (Return (), sys')
     \<and> (if {''weather'', ''fuel'', ''network''} \<subseteq> from_agent ` snd ` set msgs
         then \<exists>req. message_log sys' = message_log sys @ [req]
                \<and> to_agent req = ''optimizer'' \<and> msg_type req = REQUEST
                \<and> from_agent req = agent_id self
                \<and> map_of (payload req) ''action'' = Some (PStr ''optimize_route'')
                \<and> correlation_id req = PStr (session_id (contexts sys r))
         else message_log sys' = message_log sys)
     \<and> (\<forall>st m. from_agent m \<in> from_agent ` snd ` set msgs
                  \<or> from_agent m \<notin> {''weather'', ''fuel'', ''network''}
            \<longrightarrow> PlannerAgent_handle_response st self m sys' = (Return (), sys'))"
proof -
  let ?S = "from_agent ` snd ` set msgs"
  have ne: "ps \<noteq> []" using set_ps by (cases ps) simp_all
  from handle_responses_gather [OF ctx bus pend d ne stat, of msgs]
  obtain sys' where run: "handle_responses self msgs sys = (Return (), sys')"
    and c: "if set ps \<subseteq> ?S
            then (\<exists>req. message_log sys' = message_log sys @ [req]
                    \<and> (to_agent req = ''optimizer'' \<and> msg_type req = REQUEST \<and> from_agent req = agent_id self
               \<and> map_of (payload req) ''action'' = Some (PStr ''optimize_route'')
               \<and> correlation_id req = PStr (session_id (contexts sys r))))
                 \<and> context_get r ''pending_responses'' (PList []) sys' = PList []
                 \<and> context_get r ''planning_status'' PNone sys' = PStr ''optimizing''
            else message_log sys' = message_log sys
                 \<and> context_get r ''pending_responses'' (PList []) sys'
                     = PList (map PStr (filter (\<lambda>p. p \<notin> ?S) ps))
                 \<and> context_get r ''planning_status'' PNone sys' = PStr ''waiting_for_data''"
    by blast
  have ignored: "PlannerAgent_handle_response st self m sys' = (Return (), sys')"
    if m: "from_agent m \<in> ?S \<or> from_agent m \<notin> {''weather'', ''fuel'', ''network''}" for st m
  proof (cases "set ps \<subseteq> ?S")
    case True
    with c have "context_get r ''pending_responses'' (PList []) sys' = PList []"
      and "context_get r ''planning_status'' PNone sys' = PStr ''optimizing''" by simp_all
    then show ?thesis
      by (intro handle_response_ignored [OF ctx, where pending = "[]"]) auto
  next
    case False
    with c have p: "context_get r ''pending_responses'' (PList []) sys'
                      = PList (map PStr (filter (\<lambda>p. p \<notin> ?S) ps))" by simp
    from False have "filter (\<lambda>p. p \<notin> ?S) ps \<noteq> []"
      unfolding filter_empty_conv by blast
    moreover from m have "from_agent m \<notin> set (filter (\<lambda>p. p \<notin> ?S) ps)"
      using set_ps by auto
    then have "PStr (from_agent m) \<notin> set (map PStr (filter (\<lambda>p. p \<notin> ?S) ps))"
      by (simp add: image_iff)
    ultimately show ?thesis
      using p by (intro handle_response_ignored [OF ctx p]) simp_all
  qed
  have T: "set ps \<subseteq> ?S \<longleftrightarrow> {''weather'', ''fuel'', ''network''} \<subseteq> ?S"
    by (simp only: set_ps)
  show ?thesis
  proof (intro exI [of _ sys'] conjI)
    show "handle_responses self msgs sys = (Return (), sys')" by (rule run)
    show "if {''weather'', ''fuel'', ''network''} \<subseteq> ?S
          then \<exists>req. message_log sys' = message_log sys @ [req]
                 \<and> to_agent req = ''optimizer'' \<and> msg_type req = REQUEST
                 \<and> from_agent req = agent_id self
                 \<and> map_of (payload req) ''action'' = Some (PStr ''optimize_route'')
                 \<and> correlation_id req = PStr (session_id (contexts sys r))
          else message_log sys' = message_log sys"
    proof (cases "{''weather'', ''fuel'', ''network''} \<subseteq> ?S")
      case True
      with c [unfolded T] show ?thesis by (simp only: if_True)
    next
      case False
      with c [unfolded T] show ?thesis by (simp only: if_False)
    qed
    show "\<forall>st m. from_agent m \<in> ?S \<or> from_agent m \<notin> {''weather'', ''fuel'', ''network''}
            \<longrightarrow> PlannerAgent_handle_response st self m sys' = (Return (), sys')"
      using ignored by blast
  qed
qed

lemma waiting_system_context:
  "contexts waiting_system 0
     = \<lparr>session_id = ''s1'', goal = ''test goal'',
        data = [(''planning_status'', PStr ''waiting_for_data''),
                (''pending_responses'', PList [PStr ''weather'', PStr ''fuel'', PStr ''network''])]\<rparr>"
  by (simp add: waiting_system_def decompose_and_delegate_def demo_stamps_def planner_self_def
      send_message_def MessageBus_send_def demo_system_eq print_def context_set_def
      AgentContext_set_def receive_message_def Let_def PlannerAgent_init_def
      WeatherAgent_init_def BaseAgent_init_def)

theorem scatter_gather_witness:
  "context_ref planner_self = Some 0 \<and> message_bus planner_self
   \<and> context_get 0 ''pending_responses'' (PList []) waiting_system
       = PList (map PStr [''weather'', ''fuel'', ''network''])
   \<and> distinct [''weather'', ''fuel'', ''network'']
   \<and> set [''weather'', ''fuel'', ''network''] = {''weather'', ''fuel'', ''network''}
   \<and> context_get 0 ''planning_status'' PNone waiting_system = PStr ''waiting_for_data''
   \<and> (\<exists>sys' req. handle_responses planner_self demo_responses waiting_system = (Return (), sys')
          \<and> message_log sys' = message_log waiting_system @ [req]
          \<and> to_agent req = ''optimizer'' \<and> correlation_id req = PStr ''s1'')"
proof -
  have h1: "context_ref planner_self = Some 0" and h2: "message_bus planner_self"
    by (simp_all add: planner_self_def)
  have h3: "context_get 0 ''pending_responses'' (PList []) waiting_system
              = PList (map PStr [''weather'', ''fuel'', ''network''])"
    and h4: "context_get 0 ''planning_status'' PNone waiting_system = PStr ''waiting_for_data''"
    by (simp_all add: context_get_def AgentContext_get_def waiting_system_context)
  have h5: "distinct [''weather'', ''fuel'', ''network'']"
    and h6: "set [''weather'', ''fuel'', ''network''] = {''weather'', ''fuel'', ''network''}"
    by simp_all
  have cov: "{''weather'', ''fuel'', ''network''} \<subseteq> from_agent ` snd ` set demo_responses"
    by (simp add: demo_responses_def demo_message_def)
  from scatter_gather [OF h1 h2 h3 h5 h6 h4, of demo_responses] cov h1 h2 h3 h4
  show ?thesis
    by (auto simp add: waiting_system_context)
qed

subsection \<open>Starting an optimization\<close>

lemma MessageBus_send_unicast:
  assumes "to_agent m \<noteq> ''broadcast''" and "map_of (agents sys) (to_agent m) = Some p"
  shows "MessageBus_send m sys
     = (Return (),
        sys\<lparr>message_log := message_log sys @ [m],
            agents := AList.update (to_agent m) (p\<lparr>message_queue := message_queue p @ [m]\<rparr>)
                        (agents sys)\<rparr>)"
  using assms by (simp add: MessageBus_send_def receive_message_def)

lemma send_message_sends:
  assumes "message_bus self"
  shows "\<exists>sys'. send_message st self to ty pl corr sys = (Return (), sys')
           \<and> message_log sys'
               = message_log sys
                 @ [\<lparr>msg_id = fst st, from_agent = agent_id self, to_agent = to, msg_type = ty,
                     payload = pl, timestamp = snd st, correlation_id = corr\<rparr>]"
proof -
  let ?m = "\<lparr>msg_id = fst st, from_agent = agent_id self, to_agent = to, msg_type = ty,
             payload = pl, timestamp = snd st, correlation_id = corr\<rparr>"
  have "send_message st self to ty pl corr sys = MessageBus_send ?m sys"
    using assms by (simp add: send_message_def)
  moreover have "MessageBus_send ?m sys = (Return (), snd (MessageBus_send ?m sys))"
    using MessageBus_send_returns [of ?m sys] by (cases "MessageBus_send ?m sys") simp
  ultimately show ?thesis
    using MessageBus_send_log [of ?m sys] by auto
qed

lemma decompose_and_delegate_sends:
  assumes bus: "message_bus self"
    and g: "map_of pl ''goal'' = Some g" and s: "map_of pl ''session_id'' = Some sid"
  shows "\<exists>sys' r1 r2 r3. decompose_and_delegate sts self pl sys = (Return (), sys')
           \<and> message_log sys' = message_log sys @ [r1, r2, r3]
           \<and> map to_agent [r1, r2, r3] = [''weather'', ''fuel'', ''network'']
           \<and> map msg_type [r1, r2, r3] = [REQUEST, REQUEST, REQUEST]
           \<and> map from_agent [r1, r2, r3] = [agent_id self, agent_id self, agent_id self]
           \<and> map correlation_id [r1, r2, r3] = [sid, sid, sid]"
proof -
  let ?sys0 = "print [Text ''[Planner] Session: '', Value sid]
                 (print [Text [CHR 0x0A], Text ''[Planner] Decomposing goal: '', Value g] sys)"
  let ?p1 = "[(''action'', PStr ''get_forecast''), (''origin'', PStr ''PTY''),
              (''destination'', PStr ''BOG''), (''time_range'', PStr ''next_24_hours'')]"
  let ?p2 = "[(''action'', PStr ''get_fuel_analysis''), (''origin'', PStr ''PTY''),
              (''destination'', PStr ''BOG'')]"
  let ?p3 = "[(''action'', PStr ''check_constraints''), (''route'', PStr ''PTY-BOG'')]"
  from send_message_sends [OF bus, of "fst sts" "''weather''" REQUEST ?p1 sid ?sys0]
  obtain sys1 where s1: "send_message (fst sts) self ''weather'' REQUEST ?p1 sid ?sys0 = (Return (), sys1)"
    and l1: "message_log sys1 = message_log ?sys0
               @ [\<lparr>msg_id = fst (fst sts), from_agent = agent_id self, to_agent = ''weather'',
                   msg_type = REQUEST, payload = ?p1, timestamp = snd (fst sts),
                   correlation_id = sid\<rparr>]"
    by blast
  from send_message_sends [OF bus, of "fst (snd sts)" "''fuel''" REQUEST ?p2 sid sys1]
  obtain sys2 where s2: "send_message (fst (snd sts)) self ''fuel'' REQUEST ?p2 sid sys1 = (Return (), sys2)"
    and l2: "message_log sys2 = message_log sys1
               @ [\<lparr>msg_id = fst (fst (snd sts)), from_agent = agent_id self, to_agent = ''fuel'',
                   msg_type = REQUEST, payload = ?p2, timestamp = snd (fst (snd sts)),
                   correlation_id = sid\<rparr>]"
    by blast
  from send_message_sends [OF bus, of "snd (snd sts)" "''network''" REQUEST ?p3 sid sys2]
  obtain sys3 where s3: "send_message (snd (snd sts)) self ''network'' REQUEST ?p3 sid sys2 = (Return (), sys3)"
    and l3: "message_log sys3 = message_log sys2
               @ [\<lparr>msg_id = fst (snd (snd sts)), from_agent = agent_id self, to_agent = ''network'',
                   msg_type = REQUEST, payload = ?p3, timestamp = snd (snd (snd sts)),
                   correlation_id = sid\<rparr>]"
    by blast
  show ?thesis
  proof (cases "context_ref self")
    case None
    then have "decompose_and_delegate sts self pl sys = (Return (), sys3)"
      using g s s1 s2 s3 by (simp add: decompose_and_delegate_def Let_def)
    then show ?thesis using l1 l2 l3 by simp
  next
    case (Some r)
    then have "decompose_and_delegate sts self pl sys
        = (Return (),
           context_set r ''pending_responses''
             (PList [PStr ''weather'', PStr ''fuel'', PStr ''network''])
             (context_set r ''planning_status'' (PStr ''waiting_for_data'') sys3))"
      using g s s1 s2 s3 by (simp add: decompose_and_delegate_def Let_def)
    then show ?thesis using l1 l2 l3 by simp
  qed
qed

text \<open>
  C8, as the code has it. For a session id \<open>S\<close> that is a key of \<open>active_goals\<close>, with
  a planner registered on the bus, \<open>start_optimization(S)\<close> returns normally, appends
  exactly one message to the log and puts it in the planner's inbox: a \<open>COMMAND\<close> from
  \<open>orchestrator\<close> to \<open>planner\<close> with payload
  \<open>{action: "start_optimization", session_id: S, goal: the session's goal text}\<close>.
  When the planner, bound to the bus, handles that command, it returns normally and
  appends exactly three messages to the log: \<open>REQUEST\<close>s from the planner to
  \<open>weather\<close>, \<open>fuel\<close> and \<open>network\<close>, in that order, each with correlation id
  \<open>S\<close>.
\<close>

theorem start_optimization_fan_out:
  assumes known: "map_of (active_goals sys) S = Some r"
    and planner: "map_of (agents sys) ''planner'' = Some p"
    and bus: "message_bus self"
    and cmd: "cmd = \<lparr>msg_id = fst st, from_agent = ''orchestrator'', to_agent = ''planner'',
                     msg_type = COMMAND,
                     payload = [(''action'', PStr ''start_optimization''),
                                (''session_id'', PStr S),
                                (''goal'', PStr (goal (contexts sys r)))],
                     timestamp = snd st, correlation_id = PNone\<rparr>"
  shows "\<exists>sys1 sys2 r1 r2 r3.
           start_optimization st S sys = (Return (), sys1)
         \<and> message_log sys1 = message_log sys @ [cmd]
         \<and> map_of (agents sys1) ''planner'' = Some (p\<lparr>message_queue := message_queue p @ [cmd]\<rparr>)
         \<and> PlannerAgent_handle_command sts self cmd sys1 = (Return (), sys2)
         \<and> message_log sys2 = message_log sys1 @ [r1, r2, r3]
         \<and> map to_agent [r1, r2, r3] = [''weather'', ''fuel'', ''network'']
         \<and> map msg_type [r1, r2, r3] = [REQUEST, REQUEST, REQUEST]
         \<and> map from_agent [r1, r2, r3] = [agent_id self, agent_id self, agent_id self]
         \<and> map correlation_id [r1, r2, r3] = [PStr S, PStr S, PStr S]"
proof -
  let ?sys1 = "sys\<lparr>message_log := message_log sys @ [cmd],
                   agents := AList.update ''planner'' (p\<lparr>message_queue := message_queue p @ [cmd]\<rparr>)
                               (agents sys)\<rparr>"
  have to: "to_agent cmd = ''planner''" by (simp add: cmd)
  have "start_optimization st S sys = MessageBus_send cmd sys"
    using known by (simp add: start_optimization_def cmd)
  also have "\<dots> = (Return (), ?sys1)"
    using MessageBus_send_unicast [of cmd sys p] planner by (simp add: to)
  finally have so: "start_optimization st S sys = (Return (), ?sys1)" .
  have hc: "PlannerAgent_handle_command sts self cmd ?sys1
              = decompose_and_delegate sts self (payload cmd) ?sys1"
    by (simp add: PlannerAgent_handle_command_def cmd)
  have pg: "map_of (payload cmd) ''goal'' = Some (PStr (goal (contexts sys r)))"
    and ps: "map_of (payload cmd) ''session_id'' = Some (PStr S)"
    by (simp_all add: cmd)
  from decompose_and_delegate_sends [OF bus pg ps, of sts ?sys1]
  obtain sys2 r1 r2 r3 where
      "decompose_and_delegate sts self (payload cmd) ?sys1 = (Return (), sys2)
       \<and> message_log sys2 = message_log ?sys1 @ [r1, r2, r3]
       \<and> map to_agent [r1, r2, r3] = [''weather'', ''fuel'', ''network'']
       \<and> map msg_type [r1, r2, r3] = [REQUEST, REQUEST, REQUEST]
       \<and> map from_agent [r1, r2, r3] = [agent_id self, agent_id self, agent_id self]
       \<and> map correlation_id [r1, r2, r3] = [PStr S, PStr S, PStr S]"
    by (elim exE) (rule that)
  then show ?thesis
    by (intro exI [of _ ?sys1] exI [of _ sys2] exI [of _ r1] exI [of _ r2] exI [of _ r3])
       (simp add: so hc update_conv')
qed

theorem start_optimization_fan_out_witness:
  "map_of (active_goals demo_system) ''s1'' = Some 0
   \<and> map_of (agents demo_system) ''planner'' = Some planner_self
   \<and> message_bus planner_self
   \<and> (\<exists>sys1 sys2 r1 r2 r3.
         start_optimization (''u0'', Datetime ''t0'') ''s1'' demo_system = (Return (), sys1)
       \<and> map payload (message_log sys1)
           = [[(''action'', PStr ''start_optimization''), (''session_id'', PStr ''s1''),
               (''goal'', PStr ''test goal'')]]
       \<and> PlannerAgent_handle_command demo_stamps planner_self (last (message_log sys1)) sys1
           = (Return (), sys2)
       \<and> message_log sys2 = message_log sys1 @ [r1, r2, r3]
       \<and> map correlation_id [r1, r2, r3] = [PStr ''s1'', PStr ''s1'', PStr ''s1''])"
proof -
  have h1: "map_of (active_goals demo_system) ''s1'' = Some 0"
    and h2: "map_of (agents demo_system) ''planner'' = Some planner_self"
    and h3: "message_bus planner_self"
    and g: "goal (contexts demo_system 0) = ''test goal''"
    and l: "message_log demo_system = []"
    by (simp_all add: demo_system_eq planner_self_def)
  from start_optimization_fan_out [OF h1 h2 h3 refl, of "(''u0'', Datetime ''t0'')" demo_stamps]
  show ?thesis
    unfolding g l using h1 h2 h3 by auto
qed

text \<open>
  C8 as stated gives the command the action \<open>start\<close>. On the evaluation system the
  payload of the one message that \<open>start_optimization\<close> logs for session \<open>s1\<close> has the
  action \<open>start_optimization\<close>, which is also the only action the planner's
  \<open>handle_command\<close> reacts to.
\<close>

theorem start_optimization_action_counterexample:
  "map_of (active_goals demo_system) ''s1'' = Some 0
   \<and> map payload (message_log (snd (start_optimization (''u0'', Datetime ''t0'') ''s1'' demo_system)))
       = [[(''action'', PStr ''start_optimization''), (''session_id'', PStr ''s1''),
           (''goal'', PStr ''test goal'')]]
   \<and> map payload (message_log (snd (start_optimization (''u0'', Datetime ''t0'') ''s1'' demo_system)))
       \<noteq> [[(''action'', PStr ''start''), (''session_id'', PStr ''s1''),
            (''goal'', PStr ''test goal'')]]"
  by (simp add: demo_system_eq start_optimization_def MessageBus_send_def receive_message_def)

subsection \<open>A handler that raises\<close>

lemma queued_system_eq:
  "queued_system =
     demo_system
       \<lparr>agents := [(''planner'', planner_self\<lparr>message_queue :=
                        [failing_command, demo_message ''weather'' ''planner'' RESPONSE]\<rparr>),
                   (''weather'', WeatherAgent_init\<lparr>message_bus := True, context_ref := Some 0\<rparr>)],
        message_log := [failing_command, demo_message ''weather'' ''planner'' RESPONSE]\<rparr>"
  by (simp add: queued_system_def MessageBus_send_def demo_system_eq failing_command_def
      demo_message_def receive_message_def planner_self_def PlannerAgent_init_def
      BaseAgent_init_def)

lemma process_step_raise:
  assumes reg: "map_of (agents sys) self_id = Some a"
    and queue: "message_queue a = message # rest"
    and raises: "dispatch hs (a\<lparr>message_queue := rest, status := WORKING\<rparr>) message
                   (modify_agent self_id (\<lambda>_. a\<lparr>message_queue := rest, status := WORKING\<rparr>) sys)
                 = (Raise e, sys2)"
    and still: "map_of (agents sys2) self_id = Some b"
  shows "process_step hs elapsed self_id sys
     = (Return (),
        sys2\<lparr>agents := AList.update self_id (b\<lparr>status := ERROR, tasks_failed := tasks_failed b + 1\<rparr>)
                          (agents sys2),
             stdout := stdout sys2 @ [[Text ''['', Text (agent_id a), Text ''] ERROR: '', Error e]]\<rparr>)"
  using assms
  by (simp add: process_step_def Let_def handle_error_def print_def modify_agent_def)

lemma process_step_return:
  assumes reg: "map_of (agents sys) self_id = Some a"
    and queue: "message_queue a = message # rest"
    and returns: "dispatch hs (a\<lparr>message_queue := rest, status := WORKING\<rparr>) message
                   (modify_agent self_id (\<lambda>_. a\<lparr>message_queue := rest, status := WORKING\<rparr>) sys)
                 = (Return u, sys2)"
  shows "process_step hs elapsed self_id sys
     = (Return (),
        modify_agent self_id
          (\<lambda>c. c\<lparr>total_time := total_time c + elapsed,
                  tasks_completed := tasks_completed c + 1,
                  status := IDLE\<rparr>) sys2)"
  using assms by (simp add: process_step_def Let_def)

lemma process_step_idle:
  assumes "map_of (agents sys) self_id = Some a" and "message_queue a = []"
  shows "process_step hs elapsed self_id sys = (Return (), sys)"
  using assms by (simp add: process_step_def)

lemma process_messages_idle:
  assumes "map_of (agents sys) self_id = Some a" and "message_queue a = []"
  shows "process_messages hs els self_id sys = (Return (), sys)"
  by (induction els) (simp_all add: process_step_idle [OF assms])

lemma modify_agent_registered:
  "map_of (agents sys) aid = Some a \<Longrightarrow>
   map_of (agents (modify_agent aid f sys)) aid = Some (f a)"
  by (simp add: modify_agent_def update_conv')

text \<open>
  C2. Let an agent be registered under \<open>self_id\<close> with \<open>message\<close> at the head of its
  inbox, let the handler that \<open>process_messages\<close> dispatches the message to raise
  \<open>e\<close>, leaving the state \<open>sys2\<close>, and let \<open>b\<close> be the agent's record in \<open>sys2\<close>.
  Then the iteration returns normally (the exception does not leave it); the agent's
  record is \<open>b\<close> with \<open>status = ERROR\<close> and \<open>tasks_failed\<close> one higher; the error
  hook has printed its line; the records of all other agents, the message log of the bus,
  the contexts and the sessions are as the handler left them.

  The loop goes on. The handler ran in a state in which the failing message was already
  taken off the inbox. A loop of one iteration ends, alive, in the state \<open>sys3\<close> of that
  iteration; with nothing left in the inbox the loop stays there, however long it runs.
  With a next message \<open>nxt\<close> in the inbox, the second iteration hands \<open>nxt\<close> to its
  handler: when that handler returns, the loop has counted the message as completed,
  added its time and set the status to \<open>IDLE\<close>; when it raises too, the loop has caught
  that exception in the same way and is still alive.
\<close>

theorem handler_failure_isolated:
  assumes reg: "map_of (agents sys) self_id = Some a"
    and queue: "message_queue a = message # rest"
    and raises: "dispatch hs (a\<lparr>message_queue := rest, status := WORKING\<rparr>) message
                   (modify_agent self_id (\<lambda>_. a\<lparr>message_queue := rest, status := WORKING\<rparr>) sys)
                 = (Raise e, sys2)"
    and still: "map_of (agents sys2) self_id = Some b"
  shows "\<exists>sys3. process_step hs elapsed self_id sys = (Return (), sys3)
      \<and> map_of (agents sys3) self_id
          = Some (b\<lparr>status := ERROR, tasks_failed := tasks_failed b + 1\<rparr>)
      \<and> (\<forall>aid. aid \<noteq> self_id \<longrightarrow> map_of (agents sys3) aid = map_of (agents sys2) aid)
      \<and> message_log sys3 = message_log sys2
      \<and> contexts sys3 = contexts sys2
      \<and> active_goals sys3 = active_goals sys2
      \<and> stdout sys3 = stdout sys2 @ [[Text ''['', Text (agent_id a), Text ''] ERROR: '', Error e]]
      \<and> process_messages hs (elapsed # els) self_id sys = process_messages hs els self_id sys3
      \<and> map_of (agents (modify_agent self_id
                            (\<lambda>_. a\<lparr>message_queue := rest, status := WORKING\<rparr>) sys)) self_id
          = Some (a\<lparr>message_queue := rest, status := WORKING\<rparr>)
      \<and> process_messages hs [elapsed] self_id sys = (Return (), sys3)
      \<and> (message_queue b = [] \<longrightarrow>
           process_messages hs (elapsed # els) self_id sys = (Return (), sys3))
      \<and> (\<forall>nxt rest2 el2 sys4.
            message_queue b = nxt # rest2
            \<and> dispatch hs
                 (b\<lparr>status := WORKING, tasks_failed := tasks_failed b + 1, message_queue := rest2\<rparr>) nxt
                 (modify_agent self_id
                    (\<lambda>_. b\<lparr>status := WORKING, tasks_failed := tasks_failed b + 1,
                            message_queue := rest2\<rparr>) sys3)
               = (Return (), sys4)
            \<longrightarrow> process_messages hs [elapsed, el2] self_id sys
                  = (Return (),
                     modify_agent self_id
                       (\<lambda>c. c\<lparr>total_time := total_time c + el2,
                               tasks_completed := tasks_completed c + 1,
                               status := IDLE\<rparr>) sys4))
      \<and> (\<forall>nxt rest2 el2 e2 sys4 b4.
            message_queue b = nxt # rest2
            \<and> dispatch hs
                 (b\<lparr>status := WORKING, tasks_failed := tasks_failed b + 1, message_queue := rest2\<rparr>) nxt
                 (modify_agent self_id
                    (\<lambda>_. b\<lparr>status := WORKING, tasks_failed := tasks_failed b + 1,
                            message_queue := rest2\<rparr>) sys3)
               = (Raise e2, sys4)
            \<and> map_of (agents sys4) self_id = Some b4
            \<longrightarrow> process_messages hs [elapsed, el2] self_id sys
                  = (Return (),
                     sys4\<lparr>agents := AList.update self_id
                                        (b4\<lparr>status := ERROR, tasks_failed := tasks_failed b4 + 1\<rparr>)
                                        (agents sys4),
                          stdout := stdout sys4
                            @ [[Text ''['', Text (agent_id b), Text ''] ERROR: '', Error e2]]\<rparr>))"
proof -
  let ?b3 = "b\<lparr>status := ERROR, tasks_failed := tasks_failed b + 1\<rparr>"
  let ?sys3 = "sys2\<lparr>agents := AList.update self_id ?b3 (agents sys2),
                     stdout := stdout sys2
                       @ [[Text ''['', Text (agent_id a), Text ''] ERROR: '', Error e]]\<rparr>"
  have step: "process_step hs elapsed self_id sys = (Return (), ?sys3)"
    by (rule process_step_raise [OF assms])
  have reg3: "map_of (agents ?sys3) self_id = Some ?b3"
    by (simp add: update_conv')
  have others: "\<forall>aid. aid \<noteq> self_id \<longrightarrow> map_of (agents ?sys3) aid = map_of (agents sys2) aid"
    by (simp add: update_conv')
  have loop: "process_messages hs (elapsed # xs) self_id sys = process_messages hs xs self_id ?sys3"
    for xs
    by (simp add: step)
  have seen: "map_of (agents (modify_agent self_id
                            (\<lambda>_. a\<lparr>message_queue := rest, status := WORKING\<rparr>) sys)) self_id
                = Some (a\<lparr>message_queue := rest, status := WORKING\<rparr>)"
    by (rule modify_agent_registered [OF reg])
  have one: "process_messages hs [elapsed] self_id sys = (Return (), ?sys3)"
    unfolding loop by simp
  have idle: "process_messages hs (elapsed # els) self_id sys = (Return (), ?sys3)"
    if "message_queue b = []"
    unfolding loop using that by (intro process_messages_idle [OF reg3]) simp
  have next_ok: "process_messages hs [elapsed, el2] self_id sys
        = (Return (),
           modify_agent self_id
             (\<lambda>c. c\<lparr>total_time := total_time c + el2,
                     tasks_completed := tasks_completed c + 1,
                     status := IDLE\<rparr>) sys4)"
    if q: "message_queue b = nxt # rest2"
      and d: "dispatch hs
                (b\<lparr>status := WORKING, tasks_failed := tasks_failed b + 1, message_queue := rest2\<rparr>) nxt
                (modify_agent self_id
                   (\<lambda>_. b\<lparr>status := WORKING, tasks_failed := tasks_failed b + 1,
                           message_queue := rest2\<rparr>) ?sys3)
              = (Return (), sys4)"
    for nxt rest2 el2 sys4
  proof -
    have q3: "message_queue ?b3 = nxt # rest2" using q by simp
    have e3: "?b3\<lparr>message_queue := rest2, status := WORKING\<rparr>
                = b\<lparr>status := WORKING, tasks_failed := tasks_failed b + 1, message_queue := rest2\<rparr>"
      by simp
    have "process_step hs el2 self_id ?sys3
            = (Return (),
               modify_agent self_id
                 (\<lambda>c. c\<lparr>total_time := total_time c + el2,
                         tasks_completed := tasks_completed c + 1,
                         status := IDLE\<rparr>) sys4)"
      by (rule process_step_return [OF reg3 q3]) (simp only: e3 d)
    then show ?thesis unfolding loop by simp
  qed
  have next_raise: "process_messages hs [elapsed, el2] self_id sys
        = (Return (),
           sys4\<lparr>agents := AList.update self_id
                              (b4\<lparr>status := ERROR, tasks_failed := tasks_failed b4 + 1\<rparr>)
                              (agents sys4),
                stdout := stdout sys4
                  @ [[Text ''['', Text (agent_id b), Text ''] ERROR: '', Error e2]]\<rparr>)"
    if q: "message_queue b = nxt # rest2"
      and d: "dispatch hs
                (b\<lparr>status := WORKING, tasks_failed := tasks_failed b + 1, message_queue := rest2\<rparr>) nxt
                (modify_agent self_id
                   (\<lambda>_. b\<lparr>status := WORKING, tasks_failed := tasks_failed b + 1,
                           message_queue := rest2\<rparr>) ?sys3)
              = (Raise e2, sys4)"
      and s4: "map_of (agents sys4) self_id = Some b4"
    for nxt rest2 el2 e2 sys4 b4
  proof -
    have q3: "message_queue ?b3 = nxt # rest2" using q by simp
    have e3: "?b3\<lparr>message_queue := rest2, status := WORKING\<rparr>
                = b\<lparr>status := WORKING, tasks_failed := tasks_failed b + 1, message_queue := rest2\<rparr>"
      by simp
    have d3: "dispatch hs (?b3\<lparr>message_queue := rest2, status := WORKING\<rparr>) nxt
                (modify_agent self_id (\<lambda>_. ?b3\<lparr>message_queue := rest2, status := WORKING\<rparr>) ?sys3)
              = (Raise e2, sys4)"
      by (simp only: e3 d)
    have "process_step hs el2 self_id ?sys3
            = (Return (),
               sys4\<lparr>agents := AList.update self_id
                                  (b4\<lparr>status := ERROR, tasks_failed := tasks_failed b4 + 1\<rparr>)
                                  (agents sys4),
                    stdout := stdout sys4
                      @ [[Text ''['', Text (agent_id ?b3), Text ''] ERROR: '', Error e2]]\<rparr>)"
      by (rule process_step_raise [OF reg3 q3 d3 s4])
    then show ?thesis unfolding loop by simp
  qed
  show ?thesis
  proof (intro exI [of _ ?sys3] conjI)
    show "process_step hs elapsed self_id sys = (Return (), ?sys3)" by (rule step)
    show "map_of (agents ?sys3) self_id = Some ?b3" by (rule reg3)
    show "\<forall>aid. aid \<noteq> self_id \<longrightarrow> map_of (agents ?sys3) aid = map_of (agents sys2) aid"
      by (rule others)
    show "message_log ?sys3 = message_log sys2" by simp
    show "contexts ?sys3 = contexts sys2" by simp
    show "active_goals ?sys3 = active_goals sys2" by simp
    show "stdout ?sys3 = stdout sys2 @ [[Text ''['', Text (agent_id a), Text ''] ERROR: '', Error e]]"
      by simp
    show "process_messages hs (elapsed # els) self_id sys = process_messages hs els self_id ?sys3"
      by (rule loop)
    show "map_of (agents (modify_agent self_id
                            (\<lambda>_. a\<lparr>message_queue := rest, status := WORKING\<rparr>) sys)) self_id
            = Some (a\<lparr>message_queue := rest, status := WORKING\<rparr>)"
      by (rule seen)
    show "process_messages hs [elapsed] self_id sys = (Return (), ?sys3)" by (rule one)
    show "message_queue b = [] \<longrightarrow>
           process_messages hs (elapsed # els) self_id sys = (Return (), ?sys3)"
      using idle by blast
  qed (use next_ok next_raise in blast)+
qed

text \<open>
  C9. In the same situation, the record of the agent after the failing iteration differs
  from \<open>b\<close>, the record the handler left, in \<open>status\<close> and \<open>tasks_failed\<close> only. So
  when the handler itself has left \<open>tasks_completed\<close> and \<open>total_time\<close> as they were
  before the iteration, as all handlers of the repository do, these two fields, and with
  them the completed count and the average time that \<open>get_stats\<close> reports, are after
  the iteration what they were before it.
\<close>

theorem failed_iteration_frame:
  assumes reg: "map_of (agents sys) self_id = Some a"
    and queue: "message_queue a = message # rest"
    and raises: "dispatch hs (a\<lparr>message_queue := rest, status := WORKING\<rparr>) message
                   (modify_agent self_id (\<lambda>_. a\<lparr>message_queue := rest, status := WORKING\<rparr>) sys)
                 = (Raise e, sys2)"
    and still: "map_of (agents sys2) self_id = Some b"
    and completed: "tasks_completed b = tasks_completed a"
    and time: "total_time b = total_time a"
  shows "\<exists>sys3 c. process_step hs elapsed self_id sys = (Return (), sys3)
      \<and> map_of (agents sys3) self_id = Some c
      \<and> c = b\<lparr>status := ERROR, tasks_failed := tasks_failed b + 1\<rparr>
      \<and> tasks_completed c = tasks_completed a
      \<and> total_time c = total_time a
      \<and> map_of (get_stats c) ''tasks_completed'' = map_of (get_stats a) ''tasks_completed''
      \<and> map_of (get_stats c) ''avg_time_per_task'' = map_of (get_stats a) ''avg_time_per_task''"
  unfolding process_step_raise [OF reg queue raises still]
  using completed time
  by (intro exI [of _ "sys2\<lparr>agents := AList.update self_id
                           (b\<lparr>status := ERROR, tasks_failed := tasks_failed b + 1\<rparr>) (agents sys2),
                         stdout := stdout sys2
                           @ [[Text ''['', Text (agent_id a), Text ''] ERROR: '', Error e]]\<rparr>"]
            exI [of _ "b\<lparr>status := ERROR, tasks_failed := tasks_failed b + 1\<rparr>"])
     (simp add: update_conv' get_stats_def)

lemma queued_planner:
  "map_of (agents queued_system) ''planner''
     = Some (planner_self\<lparr>message_queue :=
               [failing_command, demo_message ''weather'' ''planner'' RESPONSE]\<rparr>)"
  by (simp add: queued_system_eq demo_system_eq)

lemma working_planner_eq:
  "planner_self\<lparr>message_queue := [failing_command, demo_message ''weather'' ''planner'' RESPONSE]\<rparr>
     \<lparr>message_queue := [demo_message ''weather'' ''planner'' RESPONSE], status := WORKING\<rparr>
   = working_planner"
  by (simp add: working_planner_def)

lemma working_system_planner: "map_of (agents working_system) ''planner'' = Some working_planner"
  by (simp add: working_system_def modify_agent_def queued_system_eq demo_system_eq)

lemma failing_command_raises:
  "dispatch demo_handlers working_planner failing_command working_system
     = (Raise (KeyError ''goal''), working_system)"
  by (simp add: dispatch_def demo_handlers_def PlannerAgent_handlers_def failing_command_def
      demo_message_def PlannerAgent_handle_command_def decompose_and_delegate_def)

lemma working_system_eq:
  "working_system =
     demo_system
       \<lparr>agents := [(''planner'', working_planner),
                   (''weather'', WeatherAgent_init\<lparr>message_bus := True, context_ref := Some 0\<rparr>)],
        message_log := [failing_command, demo_message ''weather'' ''planner'' RESPONSE]\<rparr>"
  by (simp add: working_system_def modify_agent_def queued_system_eq demo_system_eq)

lemma response_without_pending:
  assumes "context_ref self = Some 0" and "contexts sys 0 = contexts demo_system 0"
  shows "dispatch demo_handlers self (demo_message ''weather'' ''planner'' RESPONSE) sys
           = (Return (), sys)"
  using assms
  by (simp add: dispatch_def demo_handlers_def PlannerAgent_handlers_def demo_message_def
      PlannerAgent_handle_response_def advance_if_complete_def context_get_def
      AgentContext_get_def demo_system_eq)

theorem handler_failure_isolated_witness:
  "map_of (agents queued_system) ''planner''
     = Some (planner_self\<lparr>message_queue :=
               [failing_command, demo_message ''weather'' ''planner'' RESPONSE]\<rparr>)
   \<and> dispatch demo_handlers working_planner failing_command working_system
       = (Raise (KeyError ''goal''), working_system)
   \<and> map_of (agents working_system) ''planner'' = Some working_planner
   \<and> message_queue working_planner = [demo_message ''weather'' ''planner'' RESPONSE]
   \<and> (\<exists>sys3. process_step demo_handlers (1 / 4) ''planner'' queued_system = (Return (), sys3)
         \<and> map_of (agents sys3) ''planner''
             = Some (working_planner\<lparr>status := ERROR, tasks_failed := 1\<rparr>)
         \<and> stdout sys3
             = stdout working_system
               @ [[Text ''['', Text ''planner'', Text ''] ERROR: '', Error (KeyError ''goal'')]]
         \<and> process_messages demo_handlers [1 / 4, 1 / 2] ''planner'' queued_system
             = process_messages demo_handlers [1 / 2] ''planner'' sys3
         \<and> (\<exists>final. process_messages demo_handlers [1 / 4, 1 / 2] ''planner'' queued_system
                        = (Return (), final)
               \<and> map_of (agents final) ''planner''
                   = Some (planner_self\<lparr>message_queue := [], status := IDLE,
                             tasks_completed := 1, tasks_failed := 1, total_time := 1 / 2\<rparr>)
               \<and> message_log final = message_log queued_system
               \<and> stdout final = stdout sys3))"
proof -
  let ?resp = "demo_message ''weather'' ''planner'' RESPONSE"
  let ?a = "planner_self\<lparr>message_queue := [failing_command, ?resp]\<rparr>"
  have q: "message_queue ?a = failing_command # [?resp]"
    by simp
  have r: "dispatch demo_handlers (?a\<lparr>message_queue := [?resp], status := WORKING\<rparr>)
             failing_command
             (modify_agent ''planner''
                (\<lambda>_. ?a\<lparr>message_queue := [?resp], status := WORKING\<rparr>) queued_system)
           = (Raise (KeyError ''goal''), working_system)"
    unfolding working_planner_eq working_system_def [symmetric] by (rule failing_command_raises)
  have t: "tasks_failed working_planner = 0" and i: "agent_id planner_self = ''planner''"
    and wq: "message_queue working_planner = [?resp]"
    and wc: "context_ref working_planner = Some 0"
    by (simp_all add: working_planner_def planner_self_def PlannerAgent_init_def BaseAgent_init_def)
  let ?self2 = "working_planner\<lparr>status := WORKING,
                  tasks_failed := tasks_failed working_planner + 1, message_queue := []\<rparr>"
  from handler_failure_isolated [OF queued_planner q r working_system_planner, of "1 / 4" "[1 / 2]"]
  obtain sys3 where
      p1: "process_step demo_handlers (1 / 4) ''planner'' queued_system = (Return (), sys3)"
    and p2: "map_of (agents sys3) ''planner''
               = Some (working_planner\<lparr>status := ERROR,
                         tasks_failed := tasks_failed working_planner + 1\<rparr>)"
    and p3: "message_log sys3 = message_log working_system"
    and p4: "contexts sys3 = contexts working_system"
    and p5: "stdout sys3 = stdout working_system
               @ [[Text ''['', Text (agent_id ?a), Text ''] ERROR: '', Error (KeyError ''goal'')]]"
    and p6: "process_messages demo_handlers [1 / 4, 1 / 2] ''planner'' queued_system
               = process_messages demo_handlers [1 / 2] ''planner'' sys3"
    and nxt: "\<forall>nxt rest2 el2 sys4.
            message_queue working_planner = nxt # rest2
            \<and> dispatch demo_handlers
                 (working_planner\<lparr>status := WORKING,
                    tasks_failed := tasks_failed working_planner + 1, message_queue := rest2\<rparr>) nxt
                 (modify_agent ''planner''
                    (\<lambda>_. working_planner\<lparr>status := WORKING,
                            tasks_failed := tasks_failed working_planner + 1,
                            message_queue := rest2\<rparr>) sys3)
               = (Return (), sys4)
            \<longrightarrow> process_messages demo_handlers [1 / 4, el2] ''planner'' queued_system
                  = (Return (),
                     modify_agent ''planner''
                       (\<lambda>c. c\<lparr>total_time := total_time c + el2,
                               tasks_completed := tasks_completed c + 1,
                               status := IDLE\<rparr>) sys4)"
    by blast
  let ?sys1 = "modify_agent ''planner'' (\<lambda>_. ?self2) sys3"
  have c1: "contexts ?sys1 0 = contexts demo_system 0"
    using p2 by (simp add: modify_agent_def p4 working_system_eq)
  have d2: "dispatch demo_handlers ?self2 ?resp ?sys1 = (Return (), ?sys1)"
    by (rule response_without_pending [OF _ c1]) (simp add: wc)
  from nxt wq d2
  have run: "process_messages demo_handlers [1 / 4, 1 / 2] ''planner'' queued_system
               = (Return (),
                  modify_agent ''planner''
                    (\<lambda>c. c\<lparr>total_time := total_time c + 1 / 2,
                            tasks_completed := tasks_completed c + 1,
                            status := IDLE\<rparr>) ?sys1)"
    by blast
  have reg1: "map_of (agents ?sys1) ''planner'' = Some ?self2"
    by (rule modify_agent_registered [OF p2])
  have fin: "map_of (agents (modify_agent ''planner''
                    (\<lambda>c. c\<lparr>total_time := total_time c + 1 / 2,
                            tasks_completed := tasks_completed c + 1,
                            status := IDLE\<rparr>) ?sys1)) ''planner''
               = Some (planner_self\<lparr>message_queue := [], status := IDLE,
                         tasks_completed := 1, tasks_failed := 1, total_time := 1 / 2\<rparr>)"
    unfolding modify_agent_registered [OF reg1]
    by (simp add: working_planner_def planner_self_def PlannerAgent_init_def BaseAgent_init_def)
  have logs: "message_log (modify_agent ''planner''
                    (\<lambda>c. c\<lparr>total_time := total_time c + 1 / 2,
                            tasks_completed := tasks_completed c + 1,
                            status := IDLE\<rparr>) ?sys1) = message_log queued_system"
    and outs: "stdout (modify_agent ''planner''
                    (\<lambda>c. c\<lparr>total_time := total_time c + 1 / 2,
                            tasks_completed := tasks_completed c + 1,
                            status := IDLE\<rparr>) ?sys1) = stdout sys3"
    using reg1 p2 by (simp_all add: modify_agent_def p3 working_system_eq queued_system_eq)
  have p2': "map_of (agents sys3) ''planner''
               = Some (working_planner\<lparr>status := ERROR, tasks_failed := 1\<rparr>)"
    using p2 by (simp add: t)
  have p5': "stdout sys3
               = stdout working_system
                 @ [[Text ''['', Text ''planner'', Text ''] ERROR: '', Error (KeyError ''goal'')]]"
    using p5 by (simp add: i)
  have inner: "\<exists>final. process_messages demo_handlers [1 / 4, 1 / 2] ''planner'' queued_system
                        = (Return (), final)
               \<and> map_of (agents final) ''planner''
                   = Some (planner_self\<lparr>message_queue := [], status := IDLE,
                             tasks_completed := 1, tasks_failed := 1, total_time := 1 / 2\<rparr>)
               \<and> message_log final = message_log queued_system
               \<and> stdout final = stdout sys3"
    using run fin logs outs by blast
  show ?thesis
  proof (intro conjI)
    show "\<exists>sys3. process_step demo_handlers (1 / 4) ''planner'' queued_system = (Return (), sys3)
         \<and> map_of (agents sys3) ''planner''
             = Some (working_planner\<lparr>status := ERROR, tasks_failed := 1\<rparr>)
         \<and> stdout sys3
             = stdout working_system
               @ [[Text ''['', Text ''planner'', Text ''] ERROR: '', Error (KeyError ''goal'')]]
         \<and> process_messages demo_handlers [1 / 4, 1 / 2] ''planner'' queued_system
             = process_messages demo_handlers [1 / 2] ''planner'' sys3
         \<and> (\<exists>final. process_messages demo_handlers [1 / 4, 1 / 2] ''planner'' queued_system
                        = (Return (), final)
               \<and> map_of (agents final) ''planner''
                   = Some (planner_self\<lparr>message_queue := [], status := IDLE,
                             tasks_completed := 1, tasks_failed := 1, total_time := 1 / 2\<rparr>)
               \<and> message_log final = message_log queued_system
               \<and> stdout final = stdout sys3)"
      using p1 p2' p5' p6 inner by blast
  qed (rule queued_planner failing_command_raises working_system_planner wq)+
qed

theorem failed_iteration_frame_witness:
  "map_of (agents queued_system) ''planner''
     = Some (planner_self\<lparr>message_queue :=
               [failing_command, demo_message ''weather'' ''planner'' RESPONSE]\<rparr>)
   \<and> dispatch demo_handlers working_planner failing_command working_system
       = (Raise (KeyError ''goal''), working_system)
   \<and> map_of (agents working_system) ''planner'' = Some working_planner
   \<and> tasks_completed working_planner = tasks_completed planner_self
   \<and> total_time working_planner = total_time planner_self
   \<and> (\<exists>sys3 c. process_step demo_handlers (1 / 4) ''planner'' queued_system = (Return (), sys3)
         \<and> map_of (agents sys3) ''planner'' = Some c
         \<and> tasks_completed c = 0 \<and> total_time c = 0 \<and> tasks_failed c = 1 \<and> status c = ERROR)"
proof -
  have q: "message_queue (planner_self\<lparr>message_queue :=
               [failing_command, demo_message ''weather'' ''planner'' RESPONSE]\<rparr>)
             = failing_command # [demo_message ''weather'' ''planner'' RESPONSE]"
    by simp
  have r: "dispatch demo_handlers
             (planner_self\<lparr>message_queue :=
                 [failing_command, demo_message ''weather'' ''planner'' RESPONSE]\<rparr>
               \<lparr>message_queue := [demo_message ''weather'' ''planner'' RESPONSE], status := WORKING\<rparr>)
             failing_command
             (modify_agent ''planner''
                (\<lambda>_. planner_self\<lparr>message_queue :=
                        [failing_command, demo_message ''weather'' ''planner'' RESPONSE]\<rparr>
                      \<lparr>message_queue := [demo_message ''weather'' ''planner'' RESPONSE],
                        status := WORKING\<rparr>) queued_system)
           = (Raise (KeyError ''goal''), working_system)"
    unfolding working_planner_eq working_system_def [symmetric] by (rule failing_command_raises)
  have c: "tasks_completed working_planner
             = tasks_completed (planner_self\<lparr>message_queue :=
                 [failing_command, demo_message ''weather'' ''planner'' RESPONSE]\<rparr>)"
    and t: "total_time working_planner
             = total_time (planner_self\<lparr>message_queue :=
                 [failing_command, demo_message ''weather'' ''planner'' RESPONSE]\<rparr>)"
    by (simp_all add: working_planner_def)
  have z: "tasks_failed working_planner = 0" "tasks_completed planner_self = 0"
    "total_time planner_self = 0"
    by (simp_all add: working_planner_def planner_self_def PlannerAgent_init_def BaseAgent_init_def)
  from failed_iteration_frame [OF queued_planner q r working_system_planner c t, of "1 / 4"]
  show ?thesis
    using queued_planner failing_command_raises working_system_planner z
    by (auto simp add: working_planner_def)
qed

subsection \<open>The planner's handlers leave the counters alone\<close>

text \<open>
  The two theorems above take the record that the handler leaves behind as given. For the
  planner it is always there, with the counters it had: sending a message only appends to
  inboxes, and the other effects of the planner are on the context and on standard
  output.
\<close>

lemma same_bookkeeping_refl: "same_bookkeeping aid sys sys"
  by (simp add: same_bookkeeping_def split: option.splits)

lemma same_bookkeeping_from:
  "agents s1 = agents s1' \<Longrightarrow> same_bookkeeping aid s1 s2 \<Longrightarrow> same_bookkeeping aid s1' s2"
  unfolding same_bookkeeping_def by (auto split: option.splits)

lemma same_bookkeeping_to:
  "agents s2' = agents s2 \<Longrightarrow> same_bookkeeping aid s1 s2 \<Longrightarrow> same_bookkeeping aid s1 s2'"
  unfolding same_bookkeeping_def by (auto split: option.splits)

lemma agents_print: "agents (print line sys) = agents sys"
  by (simp add: print_def)

lemma agents_context_set: "agents (context_set r k v sys) = agents sys"
  by (simp add: context_set_def)

lemma MessageBus_send_bookkeeping: "same_bookkeeping aid sys (snd (MessageBus_send m sys))"
proof (cases "to_agent m = ''broadcast''")
  case True
  then show ?thesis
    by (simp add: MessageBus_send_def Let_def same_bookkeeping_def map_of_deliver
        receive_message_def split: option.splits)
next
  case False
  then show ?thesis
    by (simp add: MessageBus_send_def Let_def same_bookkeeping_def print_def
        receive_message_def update_conv' split: option.splits)
qed

lemma send_message_bookkeeping:
  "same_bookkeeping aid sys (snd (send_message st self to ty pl corr sys))"
  by (simp add: send_message_def MessageBus_send_bookkeeping same_bookkeeping_refl)


lemma same_bookkeeping_trans:
  "same_bookkeeping aid s1 s2 \<Longrightarrow> same_bookkeeping aid s2 s3 \<Longrightarrow> same_bookkeeping aid s1 s3"
  unfolding same_bookkeeping_def by (auto split: option.splits)

lemma trigger_optimization_bookkeeping:
  "same_bookkeeping aid sys (snd (trigger_optimization st self sys))"
proof (cases "context_ref self")
  case None
  then show ?thesis
    by (simp add: trigger_optimization_def Let_def)
       (rule same_bookkeeping_to [OF agents_print same_bookkeeping_refl])
next
  case (Some r)
  let ?sys0 = "print [Text [CHR 0x0A], Text ''[Planner] All data collected. Triggering optimization...''] sys"
  let ?send = "send_message st self ''optimizer'' REQUEST
                 [(''action'', PStr ''optimize_route''),
                  (''weather_data'', context_get r ''weather_data'' PNone ?sys0),
                  (''fuel_data'', context_get r ''fuel_data'' PNone ?sys0),
                  (''network_data'', context_get r ''network_data'' PNone ?sys0)]
                 (PStr (session_id (contexts ?sys0 r))) ?sys0"
  have "same_bookkeeping aid ?sys0 (snd ?send)" by (rule send_message_bookkeeping)
  then have k: "same_bookkeeping aid sys (snd ?send)"
    by (rule same_bookkeeping_from [OF agents_print])
  have a: "agents (snd (trigger_optimization st self sys)) = agents (snd ?send)"
  proof (cases ?send)
    case (Pair res sys1)
    then show ?thesis
      using Some by (cases res) (simp_all add: trigger_optimization_def Let_def agents_context_set)
  qed
  show ?thesis by (rule same_bookkeeping_to [OF a k])
qed

lemma advance_if_complete_bookkeeping:
  "same_bookkeeping aid sys (snd (advance_if_complete st self r n sys))"
  by (simp add: advance_if_complete_def trigger_optimization_bookkeeping same_bookkeeping_refl)

lemma advance_if_complete_bookkeeping_after:
  assumes "agents sys' = agents sys"
  shows "same_bookkeeping aid sys (snd (advance_if_complete st self r n sys'))"
  by (rule same_bookkeeping_from [OF assms advance_if_complete_bookkeeping])

lemma PlannerAgent_handle_response_bookkeeping:
  "same_bookkeeping aid sys (snd (PlannerAgent_handle_response st self m sys))"
proof (cases "context_ref self")
  case None
  then show ?thesis by (simp add: PlannerAgent_handle_response_def same_bookkeeping_refl)
next
  case (Some r)
  show ?thesis
  proof (cases "context_get r ''pending_responses'' (PList []) sys")
    case (PList pending)
    have "agents (print [Text ''[Planner] Received data from '', Text (from_agent m)]
            (context_set r (from_agent m @ ''_data'') (PDict (payload m))
              (context_set r ''pending_responses''
                (PList (remove1 (PStr (from_agent m)) pending)) sys))) = agents sys"
      by (simp add: agents_print agents_context_set)
    then show ?thesis
      using Some PList
      by (simp add: PlannerAgent_handle_response_def Let_def advance_if_complete_bookkeeping
          advance_if_complete_bookkeeping_after)
  qed (simp_all add: Some PlannerAgent_handle_response_def advance_if_complete_bookkeeping
        same_bookkeeping_refl)
qed


lemma decompose_and_delegate_bookkeeping:
  "same_bookkeeping aid sys (snd (decompose_and_delegate sts self pl sys))"
proof (cases "map_of pl ''goal''")
  case None
  then show ?thesis by (simp add: decompose_and_delegate_def same_bookkeeping_refl)
next
  case g: (Some g)
  show ?thesis
  proof (cases "map_of pl ''session_id''")
    case None
    then show ?thesis using g by (simp add: decompose_and_delegate_def same_bookkeeping_refl)
  next
    case s: (Some sid)
    let ?sys0 = "print [Text ''[Planner] Session: '', Value sid]
                   (print [Text [CHR 0x0A], Text ''[Planner] Decomposing goal: '', Value g] sys)"
    let ?p1 = "[(''action'', PStr ''get_forecast''), (''origin'', PStr ''PTY''),
                (''destination'', PStr ''BOG''), (''time_range'', PStr ''next_24_hours'')]"
    let ?p2 = "[(''action'', PStr ''get_fuel_analysis''), (''origin'', PStr ''PTY''),
                (''destination'', PStr ''BOG'')]"
    let ?p3 = "[(''action'', PStr ''check_constraints''), (''route'', PStr ''PTY-BOG'')]"
    obtain res1 sys1 where s1: "send_message (fst sts) self ''weather'' REQUEST ?p1 sid ?sys0 = (res1, sys1)"
      by (cases "send_message (fst sts) self ''weather'' REQUEST ?p1 sid ?sys0")
    obtain res2 sys2 where s2: "send_message (fst (snd sts)) self ''fuel'' REQUEST ?p2 sid sys1 = (res2, sys2)"
      by (cases "send_message (fst (snd sts)) self ''fuel'' REQUEST ?p2 sid sys1")
    obtain res3 sys3 where s3: "send_message (snd (snd sts)) self ''network'' REQUEST ?p3 sid sys2 = (res3, sys3)"
      by (cases "send_message (snd (snd sts)) self ''network'' REQUEST ?p3 sid sys2")
    have a0: "agents ?sys0 = agents sys" by (simp add: agents_print)
    have "same_bookkeeping aid ?sys0 sys1"
      using send_message_bookkeeping [of aid ?sys0 "fst sts" self "''weather''" REQUEST ?p1 sid] s1
      by simp
    then have k1: "same_bookkeeping aid sys sys1" by (rule same_bookkeeping_from [OF a0])
    have "same_bookkeeping aid sys1 sys2"
      using send_message_bookkeeping [of aid sys1 "fst (snd sts)" self "''fuel''" REQUEST ?p2 sid] s2
      by simp
    with k1 have k2: "same_bookkeeping aid sys sys2" by (rule same_bookkeeping_trans)
    have "same_bookkeeping aid sys2 sys3"
      using send_message_bookkeeping [of aid sys2 "snd (snd sts)" self "''network''" REQUEST ?p3 sid] s3
      by simp
    with k2 have k3: "same_bookkeeping aid sys sys3" by (rule same_bookkeeping_trans)
    have "agents (snd (decompose_and_delegate sts self pl sys)) = agents sys1
          \<or> agents (snd (decompose_and_delegate sts self pl sys)) = agents sys2
          \<or> agents (snd (decompose_and_delegate sts self pl sys)) = agents sys3"
      using g s s1 s2 s3
      by (cases res1; cases res2; cases res3; cases "context_ref self")
         (simp_all add: decompose_and_delegate_def Let_def agents_context_set)
    then show ?thesis
      using k1 k2 k3 by (auto intro: same_bookkeeping_to)
  qed
qed

lemma PlannerAgent_handle_command_bookkeeping:
  "same_bookkeeping aid sys (snd (PlannerAgent_handle_command sts self m sys))"
  by (simp add: PlannerAgent_handle_command_def decompose_and_delegate_bookkeeping
      same_bookkeeping_refl)

text \<open>
  Whatever message the planner's handlers are given, every agent that is registered before
  is registered after, with the same three counters.
\<close>

lemma PlannerAgent_dispatch_bookkeeping:
  "same_bookkeeping aid sys (snd (dispatch (PlannerAgent_handlers sts st) self m sys))"
  by (cases "msg_type m")
     (simp_all add: dispatch_def PlannerAgent_handlers_def BaseAgent_handle_request_def
        BaseAgent_handle_event_def PlannerAgent_handle_response_bookkeeping
        PlannerAgent_handle_command_bookkeeping same_bookkeeping_refl)

end
